theory Spec2Isabelle
  imports Complex_Main
begin

section \<open>Errors and results\<close>

text \<open>
  Every \<^verbatim>\<open>raise\<close> of the two source files, and every failure of a library call the
  model follows, is a value of \<open>error\<close>.  A method that mutates the object it belongs to
  returns a \<open>result\<close>: the value and the state after a normal return, or the exception
  and the state at the moment it was raised (what was done before the exception stays
  done).  Tensor entries and losses are real numbers: rounding and NaN are outside the
  model, and where torch would produce a NaN (the mean of an empty tensor) the model
  stops with \<open>NotANumber\<close>.
\<close>

datatype error =
    ValueError string
  | ZeroDivisionError
  | UnboundLocalError
  | FileNotFoundError
  | KeyError
  | UnpicklingError
  | TypeError
  | AttributeError
  | FileExistsError
  | IsADirectoryError
  | NotADirectoryError
  | RuntimeError string
  | NotANumber

datatype ('a, 's) result = Return 'a 's | Raise error 's

fun sequence :: "(error + 'a) list \<Rightarrow> error + 'a list" where
  "sequence [] = Inr []"
| "sequence (r # rs) =
     (case r of
        Inl e \<Rightarrow> Inl e
      | Inr x \<Rightarrow> (case sequence rs of Inl e \<Rightarrow> Inl e | Inr xs \<Rightarrow> Inr (x # xs)))"

section \<open>TAPLoss.py: tensors\<close>

text \<open>
  A waveform batch has shape (B, samples); the complex spectrogram returned by
  \<^verbatim>\<open>torch.stft(..., return_complex=False)\<close> has shape (B, F, T, 2) and is kept as
  (B, F, T) pairs (real part, imaginary part); embeddings have shape (B, T, D) and
  short-time energies shape (B, T).
\<close>

type_synonym wave = "real list list"
type_synonym cspec = "(real \<times> real) list list list"
type_synonym tensor2 = "real list list"
type_synonym tensor3 = "real list list list"

definition nfft :: nat where
  "nfft = 512"

definition hop_length :: nat where
  "hop_length = 160"

text \<open>Swapping the two axes of a rectangular (F, T) block, as \<^verbatim>\<open>permute\<close> does.\<close>

definition permute_ft :: "'a list list \<Rightarrow> 'a list list" where
  "permute_ft rows =
     (case rows of
        [] \<Rightarrow> []
      | r # _ \<Rightarrow> map (\<lambda>t. map (\<lambda>row. row ! t) rows) [0..<length r])"

function chunks :: "nat \<Rightarrow> 'a list \<Rightarrow> 'a list list" where
  "chunks n xs = (if n = 0 \<or> xs = [] then [] else take n xs # chunks n (drop n xs))"
  by pat_completeness auto
termination
  by (relation "measure (\<lambda>(n, xs). length xs)") auto

definition interleave :: "(real \<times> real) list \<Rightarrow> real list" where
  "interleave row = concat (map (\<lambda>(re, im). [re, im]) row)"

text \<open>
  \<^verbatim>\<open>spec.permute(0, 2, 1, 3).reshape(B, -1, 2 * (nfft // 2 + 1))\<close> for one batch item:
  the (T, F, 2) block is read in row-major order and cut into rows of 514 entries; torch
  refuses the reshape when the entries do not fill whole rows.
\<close>

definition reshape_spec :: "(real \<times> real) list list \<Rightarrow> error + real list list" where
  "reshape_spec x =
     (let flat = concat (map interleave (permute_ft x));
          w = 2 * (nfft div 2 + 1)
      in if length flat mod w = 0 then Inr (chunks w flat)
         else Inl (RuntimeError ''shape is invalid for input''))"

text \<open>
  \<^verbatim>\<open>torch.mul(torch.sum(spec_real**2 + spec_imag**2, dim = 1), 2/self.nfft)\<close> for one
  batch item: the sum runs over the frequency axis, one value per frame.
\<close>

definition short_time_energy :: "(real \<times> real) list list \<Rightarrow> real list" where
  "short_time_energy x =
     map (\<lambda>v. v * (2 / real nfft))
       (map sum_list (permute_ft (map (map (\<lambda>(re, im). re\<^sup>2 + im\<^sup>2)) x)))"

text \<open>
  The collaborators of \<^verbatim>\<open>AcousticLoss\<close>: \<^verbatim>\<open>torch.stft\<close> (called with the waveform,
  \<^verbatim>\<open>n_fft\<close> and \<^verbatim>\<open>hop_length\<close>) and the pretrained \<^verbatim>\<open>AcousticEstimator\<close>, whose
  output depends on its training flag (stochastic regularisation) and on its input.
\<close>

record ac_env =
  stft :: "wave \<Rightarrow> nat \<Rightarrow> nat \<Rightarrow> error + cspec"
  estimate_acoustics :: "bool \<Rightarrow> tensor3 \<Rightarrow> error + tensor3"

definition get_stft :: "ac_env \<Rightarrow> wave \<Rightarrow> bool \<Rightarrow> error + tensor3 \<times> tensor2 option" where
  "get_stft env wav return_short_time_energy =
     (case stft env wav nfft hop_length of
        Inl e \<Rightarrow> Inl e
      | Inr spec \<Rightarrow>
          (case sequence (map reshape_spec spec) of
             Inl e \<Rightarrow> Inl e
           | Inr sp \<Rightarrow>
               if return_short_time_energy
               then Inr (sp, Some (map short_time_energy spec))
               else Inr (sp, None)))"

subsection \<open>Elementwise operations and reductions\<close>

definition map3 :: "(real \<Rightarrow> real) \<Rightarrow> tensor3 \<Rightarrow> tensor3" where
  "map3 f x = map (map (map f)) x"

definition same_shape3 :: "tensor3 \<Rightarrow> tensor3 \<Rightarrow> bool" where
  "same_shape3 a b = list_all2 (list_all2 (\<lambda>u v. length u = length v)) a b"

text \<open>
  \<^verbatim>\<open>a - b\<close> on two embeddings.  Shapes that differ raise; torch's stretching of an
  axis of size one is not modelled (the two embeddings come from the same estimator on
  spectrograms of the same shape).
\<close>

definition sub3 :: "tensor3 \<Rightarrow> tensor3 \<Rightarrow> error + tensor3" where
  "sub3 a b =
     (if same_shape3 a b then Inr (map2 (map2 (map2 (-))) a b)
      else Inl (RuntimeError ''The size of tensor a must match the size of tensor b''))"

definition unsqueeze_last :: "tensor2 \<Rightarrow> tensor3" where
  "unsqueeze_last w = map (map (\<lambda>v. [v])) w"

text \<open>
  \<^verbatim>\<open>w * d\<close> for \<open>w\<close> of shape (B, T, 1) and \<open>d\<close> of shape (B, T, D): the single entry
  of each frame of \<open>w\<close> multiplies every entry of that frame of \<open>d\<close>.
\<close>

definition mul_bcast :: "tensor3 \<Rightarrow> tensor3 \<Rightarrow> error + tensor3" where
  "mul_bcast w d =
     (if list_all2 (list_all2 (\<lambda>wt dv. length wt = 1)) w d
      then Inr (map2 (map2 (\<lambda>wt dv. map (\<lambda>v. hd wt * v) dv)) w d)
      else Inl (RuntimeError ''The size of tensor a must match the size of tensor b''))"

definition mean3 :: "tensor3 \<Rightarrow> error + real" where
  "mean3 x =
     (let flat = concat (concat x)
      in if flat = [] then Inl NotANumber else Inr (sum_list flat / real (length flat)))"

definition sigmoid :: "real \<Rightarrow> real" where
  "sigmoid v = 1 / (1 + exp (- v))"

text \<open>\<^verbatim>\<open>torch.nn.MSELoss()\<close> and \<^verbatim>\<open>torch.nn.L1Loss()\<close> with their default mean reduction.\<close>

definition MSELoss :: "tensor3 \<Rightarrow> tensor3 \<Rightarrow> error + real" where
  "MSELoss a b = (case sub3 a b of Inl e \<Rightarrow> Inl e | Inr d \<Rightarrow> mean3 (map3 (\<lambda>v. v\<^sup>2) d))"

definition L1Loss :: "tensor3 \<Rightarrow> tensor3 \<Rightarrow> error + real" where
  "L1Loss a b = (case sub3 a b of Inl e \<Rightarrow> Inl e | Inr d \<Rightarrow> mean3 (map3 abs d))"

section \<open>TAPLoss.py: AcousticLoss\<close>

text \<open>
  The object: its \<^verbatim>\<open>loss_type\<close> and the training flag of \<^verbatim>\<open>self.estimate_acoustics\<close>
  (the weights the estimator loaded live in the collaborator \<open>estimate_acoustics\<close>).
\<close>

record acoustic_loss =
  loss_type :: string
  est_training :: bool

text \<open>
  \<^verbatim>\<open>__init__\<close>.  \<open>store\<close> is what \<^verbatim>\<open>torch.load\<close> finds at a path: nothing, a
  checkpoint without the key \<^verbatim>\<open>model_state_dict\<close>, or the state dict; \<open>accepts\<close> is
  whether \<^verbatim>\<open>load_state_dict\<close> takes it.  The branches on \<^verbatim>\<open>loss_type\<close> only create
  \<^verbatim>\<open>self.l2\<close> or \<^verbatim>\<open>self.l1\<close>; there is no \<^verbatim>\<open>else\<close>.  A fresh module is in training mode.
\<close>

definition AcousticLoss_init ::
  "(string \<rightharpoonup> 'p option) \<Rightarrow> ('p \<Rightarrow> bool) \<Rightarrow> string \<Rightarrow> string \<Rightarrow> error + acoustic_loss" where
  "AcousticLoss_init store accepts lt acoustic_model_path =
     (case store acoustic_model_path of
        None \<Rightarrow> Inl FileNotFoundError
      | Some None \<Rightarrow> Inl KeyError
      | Some (Some sd) \<Rightarrow>
          if accepts sd then Inr \<lparr>loss_type = lt, est_training = True\<rparr>
          else Inl (RuntimeError ''Error(s) in loading state_dict''))"

text \<open>Lines 66 to 77 of \<^verbatim>\<open>forward\<close>: the distance selected by \<^verbatim>\<open>loss_type\<close>.\<close>

definition acoustic_distance :: "string \<Rightarrow> tensor3 \<Rightarrow> tensor3 \<Rightarrow> tensor2 \<Rightarrow> error + real" where
  "acoustic_distance lt enhan_acoustics clean_acoustics enhan_st_energy =
     (if lt = ''l2'' then MSELoss enhan_acoustics clean_acoustics
      else if lt = ''l1'' then L1Loss enhan_acoustics clean_acoustics
      else if lt = ''frame_energy_weighted_l2'' then
        (case sub3 enhan_acoustics clean_acoustics of
           Inl e \<Rightarrow> Inl e
         | Inr d \<Rightarrow>
             (case mul_bcast
                     (unsqueeze_last (map (map (\<lambda>v. sigmoid v powr 0.5)) enhan_st_energy)) d of
                Inl e \<Rightarrow> Inl e
              | Inr p \<Rightarrow> mean3 (map3 (\<lambda>v. v\<^sup>2) p)))
      else if lt = ''frame_energy_weighted_l1'' then
        (case sub3 enhan_acoustics clean_acoustics of
           Inl e \<Rightarrow> Inl e
         | Inr d \<Rightarrow>
             (case mul_bcast (unsqueeze_last (map (map sigmoid) enhan_st_energy)) (map3 abs d) of
                Inl e \<Rightarrow> Inl e
              | Inr p \<Rightarrow> mean3 p))
      else Inl (ValueError (''Invalid loss_type '' @ lt)))"

definition forward ::
  "ac_env \<Rightarrow> acoustic_loss \<Rightarrow> wave \<Rightarrow> wave \<Rightarrow> string \<Rightarrow> (real, acoustic_loss) result" where
  "forward env self clean_waveform enhan_waveform mode =
     (if mode \<noteq> ''train'' \<and> mode \<noteq> ''eval''
      then Raise (ValueError ''Invalid mode, must be either 'train' or 'eval'.'') self
      else
        let self1 = self\<lparr>est_training := (mode = ''train'')\<rparr> in
        (case get_stft env clean_waveform False of
           Inl e \<Rightarrow> Raise e self1
         | Inr (clean_spectrogram, _) \<Rightarrow>
             (case get_stft env enhan_waveform True of
                Inl e \<Rightarrow> Raise e self1
              | Inr (enhan_spectrogram, st) \<Rightarrow>
                  (case estimate_acoustics env (est_training self1) clean_spectrogram of
                     Inl e \<Rightarrow> Raise e self1
                   | Inr clean_acoustics \<Rightarrow>
                       (case estimate_acoustics env (est_training self1) enhan_spectrogram of
                          Inl e \<Rightarrow> Raise e self1
                        | Inr enhan_acoustics \<Rightarrow>
                            (case acoustic_distance (loss_type self1) enhan_acoustics
                                    clean_acoustics (case st of None \<Rightarrow> [] | Some en \<Rightarrow> en) of
                               Inl e \<Rightarrow> Raise e self1
                             | Inr acoustic_loss \<Rightarrow> Return acoustic_loss self1))))))"

text \<open>
  \<^verbatim>\<open>__call__(self, clean_waveform, enhan_waveform, mode="train")\<close>: \<open>None\<close> is a call
  that gives no mode argument.
\<close>

definition ac_call ::
  "ac_env \<Rightarrow> acoustic_loss \<Rightarrow> wave \<Rightarrow> wave \<Rightarrow> string option \<Rightarrow> (real, acoustic_loss) result" where
  "ac_call env self clean_waveform enhan_waveform mode =
     forward env self clean_waveform enhan_waveform
       (case mode of None \<Rightarrow> ''train'' | Some m \<Rightarrow> m)"


section \<open>The distances, as the specification words them\<close>

text \<open>
  The specification describes each distance as a mean over every entry of a (B, T, D)
  embedding.  These definitions follow its words, entry by entry; they are compared with
  \<open>acoustic_distance\<close>, which follows the tensor operations of the source.
\<close>

definition has_shape3 :: "nat \<Rightarrow> nat \<Rightarrow> nat \<Rightarrow> tensor3 \<Rightarrow> bool" where
  "has_shape3 B T D x =
     (length x = B \<and> list_all (\<lambda>r. length r = T \<and> list_all (\<lambda>v. length v = D) r) x)"

definition has_shape2 :: "nat \<Rightarrow> nat \<Rightarrow> tensor2 \<Rightarrow> bool" where
  "has_shape2 B T x = (length x = B \<and> list_all (\<lambda>r. length r = T) x)"

definition mean_over :: "nat \<Rightarrow> nat \<Rightarrow> nat \<Rightarrow> (nat \<Rightarrow> nat \<Rightarrow> nat \<Rightarrow> real) \<Rightarrow> real" where
  "mean_over B T D f = (\<Sum>b<B. \<Sum>t<T. \<Sum>d<D. f b t d) / real (B * T * D)"

definition spec_l2 :: "nat \<Rightarrow> nat \<Rightarrow> nat \<Rightarrow> tensor3 \<Rightarrow> tensor3 \<Rightarrow> real" where
  "spec_l2 B T D enhan clean =
     mean_over B T D (\<lambda>b t d. (enhan ! b ! t ! d - clean ! b ! t ! d)\<^sup>2)"

definition spec_l1 :: "nat \<Rightarrow> nat \<Rightarrow> nat \<Rightarrow> tensor3 \<Rightarrow> tensor3 \<Rightarrow> real" where
  "spec_l1 B T D enhan clean =
     mean_over B T D (\<lambda>b t d. \<bar>enhan ! b ! t ! d - clean ! b ! t ! d\<bar>)"

definition spec_few_l2 :: "nat \<Rightarrow> nat \<Rightarrow> nat \<Rightarrow> tensor3 \<Rightarrow> tensor3 \<Rightarrow> tensor2 \<Rightarrow> real" where
  "spec_few_l2 B T D enhan clean energy =
     mean_over B T D
       (\<lambda>b t d. (sqrt (sigmoid (energy ! b ! t)) * (enhan ! b ! t ! d - clean ! b ! t ! d))\<^sup>2)"

definition spec_few_l1 :: "nat \<Rightarrow> nat \<Rightarrow> nat \<Rightarrow> tensor3 \<Rightarrow> tensor3 \<Rightarrow> tensor2 \<Rightarrow> real" where
  "spec_few_l1 B T D enhan clean energy =
     mean_over B T D
       (\<lambda>b t d. sigmoid (energy ! b ! t) * \<bar>enhan ! b ! t ! d - clean ! b ! t ! d\<bar>)"

section \<open>Concrete collaborators used to run the model\<close>

text \<open>
  A small stand-in for \<^verbatim>\<open>torch.stft\<close> and the estimator, with the shapes of the real
  ones: one frame of 257 bins per waveform, each bin holding the first sample, and a
  two-dimensional embedding read off the first entry of each spectrogram frame.
\<close>

definition stub_env :: ac_env where
  "stub_env =
     \<lparr>stft = (\<lambda>wav n h. Inr (map (\<lambda>x. replicate 257 [(hd x, 0)]) wav)),
      estimate_acoustics = (\<lambda>tr sp. Inr (map (map (\<lambda>row. [row ! 0, 2 * row ! 0])) sp))\<rparr>"

section \<open>torch.stft as AcousticLoss calls it\<close>

text \<open>
  \<^verbatim>\<open>torch.stft(wav, n_fft, hop_length, return_complex=False)\<close> with every other
  argument at its default, as the library documents it: the signal is padded by
  \<^verbatim>\<open>n_fft // 2\<close> reflected samples on both sides (\<^verbatim>\<open>center=True\<close>,
  \<^verbatim>\<open>pad_mode='reflect'\<close>, which needs more than \<^verbatim>\<open>n_fft // 2\<close> samples), frame
  \<open>t\<close> is the \<^verbatim>\<open>n_fft\<close> samples from \<open>t * hop_length\<close> on under a rectangular window,
  there are \<open>1 + L div hop_length\<close> frames, and bin \<open>f\<close> of a frame is its discrete
  Fourier transform at \<open>f\<close>, for \<open>f\<close> from 0 to \<^verbatim>\<open>n_fft // 2\<close> (\<^verbatim>\<open>onesided\<close>).
  \<open>frame_energy\<close> is the time-domain energy of a frame: the sum of its squared samples.
\<close>

definition reflect_pad :: "nat \<Rightarrow> real list \<Rightarrow> real list" where
  "reflect_pad p x = rev (take p (drop 1 x)) @ x @ take p (drop 1 (rev x))"

definition analysis_frame :: "nat \<Rightarrow> nat \<Rightarrow> real list \<Rightarrow> nat \<Rightarrow> real list" where
  "analysis_frame n hop x t = take n (drop (t * hop) (reflect_pad (n div 2) x))"

definition dft_bin :: "nat \<Rightarrow> real list \<Rightarrow> nat \<Rightarrow> real \<times> real" where
  "dft_bin n fr f =
     (\<Sum>k\<leftarrow>[0..<n]. fr ! k * cos (2 * pi * real f * real k / real n),
      - (\<Sum>k\<leftarrow>[0..<n]. fr ! k * sin (2 * pi * real f * real k / real n)))"

definition torch_stft :: "wave \<Rightarrow> nat \<Rightarrow> nat \<Rightarrow> error + cspec" where
  "torch_stft wav n hop =
     (if list_ex (\<lambda>x. length x \<le> n div 2) wav
      then Inl (RuntimeError ''Padding size should be less than the corresponding input dimension'')
      else Inr (map (\<lambda>x. map (\<lambda>f. map (\<lambda>t. dft_bin n (analysis_frame n hop x t) f)
                                  [0..<1 + length x div hop])
                         [0..<n div 2 + 1]) wav))"

definition frame_energy :: "real list \<Rightarrow> real" where
  "frame_energy fr = (\<Sum>v\<leftarrow>fr. v\<^sup>2)"

text \<open>The four loss kinds the docstrings of \<^verbatim>\<open>AcousticLoss\<close> name.\<close>

definition recognized_kinds :: "string list" where
  "recognized_kinds =
     [''l2'', ''l1'', ''frame_energy_weighted_l2'', ''frame_energy_weighted_l1'']"

section \<open>solver.py: data\<close>

text \<open>
  One record of \<^verbatim>\<open>self.history\<close>: the dictionary with the keys train, valid and best,
  and pesq and stoi when the epoch evaluated on the test set.
\<close>

record metrics =
  m_train :: real
  m_valid :: real
  m_best :: real
  m_pesq :: "real option"
  m_stoi :: "real option"

text \<open>
  The checkpoint package of \<^verbatim>\<open>_serialize\<close> and \<^verbatim>\<open>save_ckpts\<close>, over the type \<open>'m\<close>
  of model states and \<open>'o\<close> of optimizer states: \<^verbatim>\<open>package['model']['state']\<close>, the
  optimizer entry (present only when \<^verbatim>\<open>args.optim == "adam"\<close>), the history and the
  best state (\<open>None\<close> until a first snapshot).  The class, arguments and configuration
  stored beside them are left out.
\<close>

record ('m, 'o) package =
  pkg_model :: 'm
  pkg_optimizer :: "'o option"
  pkg_history :: "metrics list"
  pkg_best_state :: "'m option"

text \<open>
  What a file holds: a package, the best-model file (the serialized model with its state
  replaced by the best state), the JSON history, or \<open>Partial\<close>, a file whose writing
  was started and not finished.  The disk maps a path to a directory or a file; a
  path is a key, and a directory is there when its own path maps to \<open>Dir\<close>.
\<close>

datatype ('m, 'o) content =
    Package "('m, 'o) package"
  | ModelFile "'m option"
  | HistoryJson "metrics list"
  | Partial

datatype ('m, 'o) node = Dir | File "('m, 'o) content"

type_synonym ('m, 'o) fs = "string \<rightharpoonup> ('m, 'o) node"

text \<open>What the run does besides changing the solver and the disk, in order.\<close>

datatype event =
    EpochStart int
  | Augment
  | Forward
  | AcousticCall "string option"
  | OptimStep
  | Evaluate
  | Enhance

text \<open>The options of \<^verbatim>\<open>args\<close> the two methods read.\<close>

record args =
  epochs :: int
  eval_every :: int
  checkpoint :: bool
  checkpoint_file :: string
  best_file :: string
  history_file :: string
  restart :: bool
  continue_from :: string
  continue_best :: bool
  continue_pretrained :: string
  save_again :: bool
  save_checkpoints :: bool
  optim :: string
  loss :: string
  stft_loss :: bool
  stft_loss_weight :: real
  acoustic_loss :: bool
  acoustic_loss_only :: bool
  ac_loss_weight :: real
  gradient_clip :: bool
  grad_max_norm :: real

text \<open>
  The collaborators, over the type \<open>'w\<close> of waveform tensors: the three data loaders
  (a loader is the list of its batches, \<open>None\<close> when \<^verbatim>\<open>data\<close> holds no loader),
  \<^verbatim>\<open>distrib.rank\<close> and \<^verbatim>\<open>distrib.average\<close>, tensor subtraction and addition, the
  augmentation pipeline on the pair (noise, clean), the model's forward pass (which
  depends on the model's training flag and state), the three enhancement losses, the
  multi-resolution STFT loss, \<^verbatim>\<open>torch.squeeze(_, 1)\<close>, the collaborators of the
  acoustic loss, one optimisation step (\<^verbatim>\<open>zero_grad\<close>, \<^verbatim>\<open>backward\<close>, the optional
  clipping to the given norm, \<^verbatim>\<open>step\<close>) as a function of the model state, the
  optimizer state and the batch, \<^verbatim>\<open>evaluate\<close>, and the registry of pretrained models.
\<close>

record ('m, 'o, 'w) env =
  tr_loader :: "('w \<times> 'w) list"
  cv_loader :: "('w \<times> 'w) list option"
  tt_loader :: "('w \<times> 'w) list option"
  rank :: int
  average :: "real \<Rightarrow> nat \<Rightarrow> real"
  w_sub :: "'w \<Rightarrow> 'w \<Rightarrow> 'w"
  w_add :: "'w \<Rightarrow> 'w \<Rightarrow> 'w"
  augment :: "'w \<Rightarrow> 'w \<Rightarrow> 'w \<times> 'w"
  dmodel :: "bool \<Rightarrow> 'm \<Rightarrow> 'w \<Rightarrow> 'w"
  l1_loss :: "'w \<Rightarrow> 'w \<Rightarrow> real"
  mse_loss :: "'w \<Rightarrow> 'w \<Rightarrow> real"
  smooth_l1_loss :: "'w \<Rightarrow> 'w \<Rightarrow> real"
  mrstftloss :: "'w \<Rightarrow> 'w \<Rightarrow> real \<times> real"
  squeeze1 :: "'w \<Rightarrow> wave"
  ac_collab :: ac_env
  optim_step :: "real option \<Rightarrow> 'm \<Rightarrow> 'o \<Rightarrow> 'w \<Rightarrow> 'w \<Rightarrow> 'm \<times> 'o"
  evaluate :: "'m \<Rightarrow> real \<times> real"
  pretrained :: "string \<Rightarrow> 'm option"

text \<open>
  The solver: the attributes the methods change (the model's state and training flag,
  the optimizer's state, the history, the best state, \<^verbatim>\<open>self.epoch\<close>, the acoustic-loss
  object), and the world around it: the disk as it is now, every state the disk went
  through before (a process killed at any moment leaves one of them, or the current
  one), and the events so far.
\<close>

record ('m, 'o) solver =
  model :: 'm
  model_training :: bool
  optimizer :: 'o
  history :: "metrics list"
  best_state :: "'m option"
  epoch :: int
  ac_loss :: acoustic_loss
  disk :: "('m, 'o) fs"
  seen :: "('m, 'o) fs list"
  events :: "event list"

text \<open>The attributes \<^verbatim>\<open>__init__\<close> sets before it calls \<^verbatim>\<open>_reset\<close>.\<close>

definition fresh :: "'m \<Rightarrow> 'o \<Rightarrow> acoustic_loss \<Rightarrow> ('m, 'o) fs \<Rightarrow> ('m, 'o) solver" where
  "fresh m opt al d =
     \<lparr>model = m, model_training = True, optimizer = opt, history = [], best_state = None,
      epoch = 0, ac_loss = al, disk = d, seen = [], events = []\<rparr>"

text \<open>
  Sequencing: the second step runs on the state the first returned; an exception of the
  first ends the computation with the state it was raised in.  \<open>final\<close> is the state a
  computation ends in, returned or raised.
\<close>

definition bind :: "('a, 's) result \<Rightarrow> ('a \<Rightarrow> 's \<Rightarrow> ('b, 's) result) \<Rightarrow> ('b, 's) result" where
  "bind r f = (case r of Return a s \<Rightarrow> f a s | Raise e s \<Rightarrow> Raise e s)"

definition final :: "('a, 's) result \<Rightarrow> 's" where
  "final r = (case r of Return a s \<Rightarrow> s | Raise e s \<Rightarrow> s)"

text \<open>A data loader is falsy when it is \<open>None\<close> or has no batch (\<^verbatim>\<open>__len__\<close> is 0).\<close>

definition truthy :: "'a list option \<Rightarrow> bool" where
  "truthy l = (case l of None \<Rightarrow> False | Some bs \<Rightarrow> bs \<noteq> [])"

subsection \<open>The disk\<close>

text \<open>
  The directory a path lies in: the path up to its last slash, and the empty path (the
  working directory) for a name without a slash.
\<close>

definition parent_dir :: "string \<Rightarrow> string" where
  "parent_dir p =
     (if CHR ''/'' \<in> set p then rev (tl (dropWhile (\<lambda>c. c \<noteq> CHR ''/'') (rev p))) else [])"

text \<open>
  Opening a path for writing (\<^verbatim>\<open>torch.save\<close>, \<^verbatim>\<open>open(_, "w")\<close>) fails when the path is
  a directory, and when the directory it lies in is missing or is a regular file; the
  working directory, written as the empty path or as a dot, is always there.
\<close>

definition open_for_writing :: "('m, 'o) fs \<Rightarrow> string \<Rightarrow> error option" where
  "open_for_writing d p =
     (if d p = Some Dir then Some IsADirectoryError
      else if parent_dir p = [] \<or> parent_dir p = ''.'' then None
      else (case d (parent_dir p) of
              None \<Rightarrow> Some FileNotFoundError
            | Some Dir \<Rightarrow> None
            | Some (File c) \<Rightarrow> Some NotADirectoryError))"

text \<open>
  Writing a file raises, with the disk untouched, when the path cannot be opened.
  Otherwise it is not atomic: between the state before and the state after, the path
  holds a partial file.  Renaming and creating a directory are single steps; renaming
  onto a directory raises.
\<close>

definition write_file ::
  "('m, 'o) content \<Rightarrow> string \<Rightarrow> ('m, 'o) solver \<Rightarrow> (unit, ('m, 'o) solver) result" where
  "write_file c p s =
     (case open_for_writing (disk s) p of
        Some err \<Rightarrow> Raise err s
      | None \<Rightarrow>
          Return ()
            (s\<lparr>seen := seen s @ [disk s, (disk s)(p \<mapsto> File Partial)],
               disk := (disk s)(p \<mapsto> File c)\<rparr>))"

definition os_rename ::
  "string \<Rightarrow> string \<Rightarrow> ('m, 'o) solver \<Rightarrow> (unit, ('m, 'o) solver) result" where
  "os_rename src dst s =
     (case disk s src of
        None \<Rightarrow> Raise FileNotFoundError s
      | Some n \<Rightarrow>
          if disk s dst = Some Dir then Raise IsADirectoryError s
          else Return ()
                 (s\<lparr>seen := seen s @ [disk s], disk := (disk s)(src := None, dst \<mapsto> n)\<rparr>))"

definition os_mkdir :: "string \<Rightarrow> ('m, 'o) solver \<Rightarrow> (unit, ('m, 'o) solver) result" where
  "os_mkdir p s =
     (if disk s p \<noteq> None then Raise FileExistsError s
      else Return () (s\<lparr>seen := seen s @ [disk s], disk := (disk s)(p \<mapsto> Dir)\<rparr>))"

definition torch_load :: "('m, 'o) fs \<Rightarrow> string \<Rightarrow> error + ('m, 'o) package" where
  "torch_load d p =
     (case d p of
        None \<Rightarrow> Inl FileNotFoundError
      | Some Dir \<Rightarrow> Inl IsADirectoryError
      | Some (File (Package pk)) \<Rightarrow> Inr pk
      | Some (File (ModelFile m)) \<Rightarrow> Inl KeyError
      | Some (File (HistoryJson h)) \<Rightarrow> Inl UnpicklingError
      | Some (File Partial) \<Rightarrow> Inl UnpicklingError)"

text \<open>The decimal digits of a number, as \<^verbatim>\<open>"%d"\<close> prints it.\<close>

definition digit_char :: "nat \<Rightarrow> char" where
  "digit_char k = ''0123456789'' ! k"

function digits_acc :: "nat \<Rightarrow> string \<Rightarrow> string" where
  "digits_acc n acc =
     (if n div 10 = 0 then digit_char (n mod 10) # acc
      else digits_acc (n div 10) (digit_char (n mod 10) # acc))"
  by pat_completeness auto
termination
  by (relation "measure fst") auto

definition string_of_int :: "int \<Rightarrow> string" where
  "string_of_int i =
     (if i < 0 then CHR ''-'' # digits_acc (nat (- i)) [] else digits_acc (nat i) [])"

section \<open>solver.py: checkpoints\<close>

definition make_package :: "args \<Rightarrow> ('m, 'o) solver \<Rightarrow> ('m, 'o) package" where
  "make_package cfg self =
     \<lparr>pkg_model = model self,
      pkg_optimizer = (if optim cfg = ''adam'' then Some (optimizer self) else None),
      pkg_history = history self,
      pkg_best_state = best_state self\<rparr>"

text \<open>
  \<^verbatim>\<open>_serialize\<close>.  \<^verbatim>\<open>self.checkpoint_file\<close> and \<^verbatim>\<open>self.best_file\<close> exist only when
  \<^verbatim>\<open>args.checkpoint\<close> is set.
\<close>

definition serialize :: "args \<Rightarrow> ('m, 'o) solver \<Rightarrow> (unit, ('m, 'o) solver) result" where
  "serialize cfg self =
     (if \<not> checkpoint cfg then Raise AttributeError self
      else
        let package = make_package cfg self;
            tmp_path = checkpoint_file cfg @ ''.tmp''
        in bind (write_file (Package package) tmp_path self)
             (\<lambda>_ s0.
                bind (os_rename tmp_path (checkpoint_file cfg) s0)
                  (\<lambda>_ s1.
                     let tmp_path = best_file cfg @ ''.tmp''
                     in bind (write_file (ModelFile (best_state s1)) tmp_path s1)
                          (\<lambda>_ s2. os_rename tmp_path (best_file cfg) s2))))"

definition save_ckpts :: "args \<Rightarrow> ('m, 'o) solver \<Rightarrow> (unit, ('m, 'o) solver) result" where
  "save_ckpts cfg self =
     (let package = make_package cfg self
      in bind (if disk self ''./checkpoints'' = None then os_mkdir ''./checkpoints'' self
               else Return () self)
           (\<lambda>_ s1.
              if save_checkpoints cfg
              then write_file (Package package)
                     (''./checkpoints/checkpoint_epoch_'' @ string_of_int (epoch s1 + 1) @ ''.pt'')
                     s1
              else Return () s1))"

section \<open>solver.py: _reset\<close>

text \<open>
  \<^verbatim>\<open>load_state_dict\<close> of \<open>None\<close> (a package saved before any snapshot) raises; the
  match of the loaded keys with the model's is not modelled.
\<close>

definition reset :: "args \<Rightarrow> ('m, 'o, 'w) env \<Rightarrow> ('m, 'o) solver \<Rightarrow> (unit, ('m, 'o) solver) result" where
  "reset cfg e self =
     (let (load_from, load_best, keep_history) =
            (if checkpoint cfg \<and> disk self (checkpoint_file cfg) \<noteq> None \<and> \<not> restart cfg
             then (Some (checkpoint_file cfg), False, True)
             else if continue_from cfg \<noteq> [] then (Some (continue_from cfg), continue_best cfg, False)
             else (None, False, True))
      in bind
           (case load_from of
              None \<Rightarrow> Return () self
            | Some p \<Rightarrow>
                (case torch_load (disk self) p of
                   Inl err \<Rightarrow> Raise err self
                 | Inr package \<Rightarrow>
                     (case (if load_best then pkg_best_state package else Some (pkg_model package)) of
                        None \<Rightarrow> Raise TypeError self
                      | Some st \<Rightarrow>
                          let s1 = self\<lparr>model := st\<rparr>;
                              s2 = (case pkg_optimizer package of
                                      Some opt \<Rightarrow>
                                        if \<not> load_best \<and> optim cfg = ''adam''
                                        then s1\<lparr>optimizer := opt\<rparr> else s1
                                    | None \<Rightarrow> s1);
                              s3 = (if keep_history then s2\<lparr>history := pkg_history package\<rparr> else s2)
                          in Return () (s3\<lparr>best_state := pkg_best_state package\<rparr>))))
           (\<lambda>_ s4.
              if continue_pretrained cfg \<noteq> [] then
                (case pretrained e (continue_pretrained cfg) of
                   None \<Rightarrow> Raise AttributeError s4
                 | Some m \<Rightarrow> Return () (s4\<lparr>model := m\<rparr>))
              else Return () s4))"

section \<open>solver.py: one pass over a loader\<close>

text \<open>The dictionary \<^verbatim>\<open>_run_one_epoch\<close> returns.\<close>

record losses =
  total_loss :: real
  total_enhancement_loss :: real
  total_acoustic_loss :: real

text \<open>
  \<^verbatim>\<open>self.ac_loss(torch.squeeze(clean, 1), torch.squeeze(estimate, 1))\<close>: both call sites
  of \<^verbatim>\<open>_run_one_epoch\<close> give no mode argument.  The call changes the acoustic-loss
  object (the estimator's training flag) whether it returns or raises.
\<close>

definition call_ac_loss ::
  "('m, 'o, 'w) env \<Rightarrow> 'w \<Rightarrow> 'w \<Rightarrow> ('m, 'o) solver \<Rightarrow> (real, ('m, 'o) solver) result" where
  "call_ac_loss e clean estimate self =
     (let s1 = self\<lparr>events := events self @ [AcousticCall None]\<rparr>
      in case ac_call (ac_collab e) (ac_loss s1) (squeeze1 e clean) (squeeze1 e estimate) None of
           Return v al \<Rightarrow> Return v (s1\<lparr>ac_loss := al\<rparr>)
         | Raise err al \<Rightarrow> Raise err (s1\<lparr>ac_loss := al\<rparr>))"

text \<open>
  Lines 271 to 298: the loss of one batch, as the triple (\<^verbatim>\<open>loss\<close>, \<^verbatim>\<open>enh_loss\<close>,
  \<^verbatim>\<open>ac_loss\<close>).
\<close>

definition compute_loss ::
  "args \<Rightarrow> ('m, 'o, 'w) env \<Rightarrow> 'w \<Rightarrow> 'w \<Rightarrow> ('m, 'o) solver \<Rightarrow>
     (real \<times> real \<times> real, ('m, 'o) solver) result" where
  "compute_loss cfg e clean estimate self =
     (if \<not> acoustic_loss_only cfg then
        (if loss cfg \<noteq> ''l1'' \<and> loss cfg \<noteq> ''l2'' \<and> loss cfg \<noteq> ''huber''
         then Raise (ValueError (''Invalid loss '' @ loss cfg)) self
         else
           let enh0 = (if loss cfg = ''l1'' then l1_loss e clean estimate
                       else if loss cfg = ''l2'' then mse_loss e clean estimate
                       else smooth_l1_loss e clean estimate);
               enh_loss = (if stft_loss cfg
                           then (case mrstftloss e estimate clean of
                                   (sc_loss, mag_loss) \<Rightarrow>
                                     enh0 + stft_loss_weight cfg * (sc_loss + mag_loss))
                           else enh0)
           in if acoustic_loss cfg
              then bind (call_ac_loss e clean estimate self)
                     (\<lambda>v s1. Return (enh_loss + ac_loss_weight cfg * v, enh_loss,
                                      ac_loss_weight cfg * v) s1)
              else Return (enh_loss, enh_loss, 0) self)
      else if \<not> acoustic_loss cfg
        then Raise (ValueError ''Acoustic Loss must be set to True while Acoustic Only is True'') self
        else bind (call_ac_loss e clean estimate self)
               (\<lambda>v s1. Return (ac_loss_weight cfg * v, 0, ac_loss_weight cfg * v) s1))"

text \<open>The body of the batch loop, for batch number \<open>i\<close> (counted from 0).\<close>

definition process_batch ::
  "args \<Rightarrow> ('m, 'o, 'w) env \<Rightarrow> bool \<Rightarrow> nat \<Rightarrow> 'w \<times> 'w \<Rightarrow> ('m, 'o) solver \<Rightarrow>
     (real \<times> real \<times> real, ('m, 'o) solver) result" where
  "process_batch cfg e cross_valid i data self =
     bind (if (i + 1) mod 1000 = 0 \<and> \<not> cross_valid then save_ckpts cfg self else Return () self)
       (\<lambda>_ s1.
          case data of (noisy0, clean0) \<Rightarrow>
          (case (if \<not> cross_valid
                 then (case augment e (w_sub e noisy0 clean0) clean0 of
                         (noise, clean) \<Rightarrow>
                           (w_add e noise clean, clean, s1\<lparr>events := events s1 @ [Augment]\<rparr>))
                 else (noisy0, clean0, s1)) of
             (noisy, clean, s2) \<Rightarrow>
               let estimate = dmodel e (model_training s2) (model s2) noisy;
                   s3 = s2\<lparr>events := events s2 @ [Forward]\<rparr>
               in bind (compute_loss cfg e clean estimate s3)
                    (\<lambda>l s4.
                       if \<not> cross_valid
                       then (case optim_step e
                                    (if gradient_clip cfg then Some (grad_max_norm cfg) else None)
                                    (model s4) (optimizer s4) noisy clean of
                               (m, opt) \<Rightarrow>
                                 Return l (s4\<lparr>model := m, optimizer := opt,
                                              events := events s4 @ [OptimStep]\<rparr>))
                       else Return l s4)))"

fun run_batches ::
  "args \<Rightarrow> ('m, 'o, 'w) env \<Rightarrow> bool \<Rightarrow> nat \<Rightarrow> ('w \<times> 'w) list \<Rightarrow> real \<times> real \<times> real \<Rightarrow>
     ('m, 'o) solver \<Rightarrow> (real \<times> real \<times> real, ('m, 'o) solver) result" where
  "run_batches cfg e cross_valid i [] totals self = Return totals self"
| "run_batches cfg e cross_valid i (data # rest) totals self =
     bind (process_batch cfg e cross_valid i data self)
       (\<lambda>l s1.
          case (totals, l) of
            ((t, te, ta), (lv, ev, av)) \<Rightarrow>
              run_batches cfg e cross_valid (i + 1) rest (t + lv, te + ev, ta + av) s1)"

text \<open>
  \<^verbatim>\<open>_run_one_epoch\<close>.  After a loop over no batch the loop variable \<^verbatim>\<open>i\<close> is unbound
  and the return statement raises.
\<close>

definition run_one_epoch ::
  "args \<Rightarrow> ('m, 'o, 'w) env \<Rightarrow> int \<Rightarrow> bool \<Rightarrow> ('m, 'o) solver \<Rightarrow>
     (losses, ('m, 'o) solver) result" where
  "run_one_epoch cfg e ep cross_valid self =
     (case (if \<not> cross_valid then Some (tr_loader e) else cv_loader e) of
        None \<Rightarrow> Raise AttributeError self
      | Some data_loader \<Rightarrow>
          bind (run_batches cfg e cross_valid 0 data_loader (0, 0, 0) self)
            (\<lambda>totals s1.
               case totals of
                 (t, te, ta) \<Rightarrow>
                   if data_loader = [] then Raise UnboundLocalError s1
                   else
                     let n = length data_loader
                     in Return \<lparr>total_loss = average e (t / real n) n,
                                 total_enhancement_loss = average e (te / real n) n,
                                 total_acoustic_loss = average e (ta / real n) n\<rparr> s1))"

section \<open>solver.py: train\<close>

text \<open>
  Modelled from the spec: \<^verbatim>\<open>pull_metric\<close> of \<^verbatim>\<open>utils.py\<close>, which is not among the
  source files; with the key valid it gives "all previously recorded valid losses".
\<close>

definition pull_metric :: "metrics list \<Rightarrow> real list" where
  "pull_metric h = map m_valid h"

text \<open>\<^verbatim>\<open>range(a, b)\<close>.\<close>

definition py_range :: "int \<Rightarrow> int \<Rightarrow> int list" where
  "py_range a b = [a..b - 1]"

text \<open>
  Lines 238 to 244, after the record was appended: on the worker of rank 0 the history
  file is rewritten and, when checkpoints are enabled, \<^verbatim>\<open>save_ckpts\<close> and
  \<^verbatim>\<open>_serialize\<close> run.
\<close>

definition persist_epoch ::
  "args \<Rightarrow> ('m, 'o, 'w) env \<Rightarrow> ('m, 'o) solver \<Rightarrow> (unit, ('m, 'o) solver) result" where
  "persist_epoch cfg e s5 =
     (if rank e = 0
      then
        bind (write_file (HistoryJson (history s5)) (history_file cfg) s5)
          (\<lambda>_ s6.
             if checkpoint cfg
             then bind (save_ckpts cfg s6) (\<lambda>_ s7. serialize cfg s7)
             else Return () s6)
      else Return () s5)"

text \<open>
  The end of the body of the epoch loop of \<^verbatim>\<open>train\<close>, lines 208 to 244, once the
  train loss and the valid loss of the epoch are known: the best loss, the snapshot,
  the evaluation, the new record of the history, and the files.
\<close>

definition record_epoch ::
  "args \<Rightarrow> ('m, 'o, 'w) env \<Rightarrow> int \<Rightarrow> real \<Rightarrow> real \<Rightarrow> ('m, 'o) solver \<Rightarrow>
     (unit, ('m, 'o) solver) result" where
  "record_epoch cfg e ep train_loss valid_loss s2 =
     (let best_loss = min_list (pull_metric (history s2) @ [valid_loss]);
          metrics = \<lparr>m_train = train_loss, m_valid = valid_loss,
                     m_best = best_loss, m_pesq = None, m_stoi = None\<rparr>;
          s3 = (if valid_loss = best_loss then s2\<lparr>best_state := Some (model s2)\<rparr> else s2)
      in if eval_every cfg = 0 then Raise ZeroDivisionError s3
         else
           (case (if ((ep + 1) mod eval_every cfg = 0 \<or> ep = epochs cfg - 1)
                     \<and> truthy (tt_loader e)
                  then (case evaluate e (model s3) of
                          (pesq, stoi) \<Rightarrow>
                            (metrics\<lparr>m_pesq := Some pesq, m_stoi := Some stoi\<rparr>,
                             s3\<lparr>events := events s3 @ [Evaluate, Enhance]\<rparr>))
                  else (metrics, s3)) of
              (metrics1, s4) \<Rightarrow>
                persist_epoch cfg e (s4\<lparr>history := history s4 @ [metrics1]\<rparr>)))"

text \<open>
  The body of the epoch loop of \<^verbatim>\<open>train\<close>, lines 163 to 244: the training pass, the
  validation pass when there is a validation loader (the valid loss is 0 otherwise), and
  the end of the epoch.
\<close>

definition train_epoch ::
  "args \<Rightarrow> ('m, 'o, 'w) env \<Rightarrow> int \<Rightarrow> ('m, 'o) solver \<Rightarrow> (unit, ('m, 'o) solver) result" where
  "train_epoch cfg e ep self =
     bind (run_one_epoch cfg e ep False
             (self\<lparr>epoch := ep, model_training := True,
                   events := events self @ [EpochStart ep]\<rparr>))
       (\<lambda>train_losses s1.
          bind (if truthy (cv_loader e)
                then bind (run_one_epoch cfg e ep True (s1\<lparr>model_training := False\<rparr>))
                       (\<lambda>valid_losses s2. Return (total_loss valid_losses) s2)
                else Return 0 s1)
            (\<lambda>valid_loss s2. record_epoch cfg e ep (total_loss train_losses) valid_loss s2))"

fun for_epochs ::
  "args \<Rightarrow> ('m, 'o, 'w) env \<Rightarrow> int list \<Rightarrow> ('m, 'o) solver \<Rightarrow> (unit, ('m, 'o) solver) result" where
  "for_epochs cfg e [] self = Return () self"
| "for_epochs cfg e (ep # rest) self =
     bind (train_epoch cfg e ep self) (\<lambda>_ s1. for_epochs cfg e rest s1)"

definition train ::
  "args \<Rightarrow> ('m, 'o, 'w) env \<Rightarrow> ('m, 'o) solver \<Rightarrow> (unit, ('m, 'o) solver) result" where
  "train cfg e self =
     (if save_again cfg then serialize cfg self
      else
        bind (if disk self ''./tensorboard/log'' = None then os_mkdir ''./tensorboard/log'' self
              else Return () self)
          (\<lambda>_ s1. for_epochs cfg e (py_range (int (length (history s1))) (epochs cfg)) s1))"

text \<open>The epochs the run started, in order, and the mode arguments of its acoustic-loss calls.\<close>

fun epoch_starts :: "event list \<Rightarrow> int list" where
  "epoch_starts [] = []"
| "epoch_starts (EpochStart ep # evs) = ep # epoch_starts evs"
| "epoch_starts (_ # evs) = epoch_starts evs"

fun ac_modes :: "event list \<Rightarrow> string option list" where
  "ac_modes [] = []"
| "ac_modes (AcousticCall m # evs) = m # ac_modes evs"
| "ac_modes (_ # evs) = ac_modes evs"

text \<open>
  The history invariant of the specification: every record's best is the least valid
  loss recorded up to and including it.
\<close>

definition history_inv :: "metrics list \<Rightarrow> bool" where
  "history_inv h =
     list_all (\<lambda>k. m_best (h ! k) = Min (set (map m_valid (take (Suc k) h)))) [0..<length h]"

text \<open>
  What a pass over a loader leaves alone: the history, the best state, \<^verbatim>\<open>self.epoch\<close>,
  the model's training flag and the epochs started; and every acoustic-loss call it adds
  gives no mode argument.
\<close>

definition pass_frame :: "('m, 'o) solver \<Rightarrow> ('m, 'o) solver \<Rightarrow> bool" where
  "pass_frame self s1 =
     (history s1 = history self \<and> best_state s1 = best_state self \<and> epoch s1 = epoch self \<and>
      model_training s1 = model_training self \<and>
      epoch_starts (events s1) = epoch_starts (events self) \<and>
      (\<exists>k. ac_modes (events s1) = ac_modes (events self) @ replicate k None))"


text \<open>
  A configuration, collaborators over real "waveforms" with integer model and optimizer
  states, and a freshly constructed solver on an empty disk.
\<close>

definition demo_args :: args where
  "demo_args =
     \<lparr>epochs = 2, eval_every = 1, checkpoint = True, checkpoint_file = ''checkpoint.th'',
      best_file = ''best.th'', history_file = ''history.json'', restart = False,
      continue_from = '''', continue_best = False, continue_pretrained = '''',
      save_again = False, save_checkpoints = False, optim = ''adam'', loss = ''l1'',
      stft_loss = False, stft_loss_weight = 0, acoustic_loss = False,
      acoustic_loss_only = False, ac_loss_weight = 1, gradient_clip = False,
      grad_max_norm = 5\<rparr>"

definition demo_env :: "(int, int, real) env" where
  "demo_env =
     \<lparr>tr_loader = [(2, 1)], cv_loader = None, tt_loader = None, rank = 0,
      average = (\<lambda>v n. v), w_sub = (-), w_add = (+), augment = (\<lambda>noise clean. (noise, clean)),
      dmodel = (\<lambda>tr m w. w), l1_loss = (\<lambda>a b. \<bar>a - b\<bar>), mse_loss = (\<lambda>a b. (a - b)\<^sup>2),
      smooth_l1_loss = (\<lambda>a b. \<bar>a - b\<bar>), mrstftloss = (\<lambda>a b. (0, 0)),
      squeeze1 = (\<lambda>w. [[w]]), ac_collab = stub_env,
      optim_step = (\<lambda>clip m opt noisy clean. (m + 1, opt + 1)),
      evaluate = (\<lambda>m. (0, 0)), pretrained = (\<lambda>name. None)\<rparr>"

definition demo_solver :: "(int, int) solver" where
  "demo_solver = fresh 0 0 \<lparr>loss_type = ''l2'', est_training = False\<rparr> Map.empty"


text \<open>A checkpoint package of another run, as an external checkpoint to continue from.\<close>

definition ext_package :: "(int, int) package" where
  "ext_package =
     \<lparr>pkg_model = 3, pkg_optimizer = Some 7,
      pkg_history = [\<lparr>m_train = 1, m_valid = 2, m_best = 2, m_pesq = None, m_stoi = None\<rparr>],
      pkg_best_state = Some 5\<rparr>"

section \<open>Properties of TAPLoss.py\<close>

lemma has_shape3_nth:
  "has_shape3 B T D x \<Longrightarrow> b < B \<Longrightarrow> length (x ! b) = T"
  "has_shape3 B T D x \<Longrightarrow> b < B \<Longrightarrow> t < T \<Longrightarrow> length (x ! b ! t) = D"
  by (auto simp: has_shape3_def list_all_length)

lemma sum_list_nth_lessThan: "sum_list xs = (\<Sum>i<length xs. xs ! i)"
  by (simp add: sum_list_sum_nth atLeast0LessThan)

lemma sum_list_concat_real: "sum_list (concat xss) = sum_list (map sum_list xss)" for xss :: "real list list"
  by (induction xss) auto

lemma length_concat_const:
  "list_all (\<lambda>r. length r = n) xs \<Longrightarrow> length (concat xs) = length xs * n"
  by (induction xs) auto

lemma sum_flat3:
  assumes "has_shape3 B T D x"
  shows "sum_list (concat (concat x)) = (\<Sum>b<B. \<Sum>t<T. \<Sum>d<D. x ! b ! t ! d)"
proof -
  have "sum_list (concat (concat x)) = sum_list (map (\<lambda>r. sum_list (map sum_list r)) x)"
    by (induction x) (simp_all add: sum_list_concat_real)
  also have "\<dots> = (\<Sum>b<length x. sum_list (map sum_list (x ! b)))"
    by (simp add: sum_list_nth_lessThan)
  also have "\<dots> = (\<Sum>b<B. \<Sum>t<T. sum_list (x ! b ! t))"
    using assms by (auto simp: sum_list_nth_lessThan has_shape3_def list_all_length intro!: sum.cong)
  also have "\<dots> = (\<Sum>b<B. \<Sum>t<T. \<Sum>d<D. x ! b ! t ! d)"
    using assms by (auto simp: sum_list_nth_lessThan has_shape3_def list_all_length intro!: sum.cong)
  finally show ?thesis .
qed

lemma numel3:
  assumes "has_shape3 B T D x"
  shows "length (concat (concat x)) = B * T * D"
proof -
  have "list_all (\<lambda>r. length r = T * D) (map concat x)"
    using assms by (auto simp: has_shape3_def list_all_iff length_concat_const)
  then have "length (concat (map concat x)) = length (map concat x) * (T * D)"
    by (rule length_concat_const)
  moreover have "concat (concat x) = concat (map concat x)"
    by (induction x) simp_all
  ultimately show ?thesis using assms by (simp add: has_shape3_def)
qed

lemma mean3_shape:
  assumes "has_shape3 B T D x" "0 < B" "0 < T" "0 < D"
  shows "mean3 x = Inr (mean_over B T D (\<lambda>b t d. x ! b ! t ! d))"
proof -
  have "length (concat (concat x)) = B * T * D" by (rule numel3[OF assms(1)])
  moreover have "concat (concat x) \<noteq> []"
    using calculation assms(2-4) by (metis length_greater_0_conv mult_pos_pos)
  ultimately show ?thesis
    by (simp add: mean3_def mean_over_def sum_flat3[OF assms(1)] Let_def)
qed

lemma map3_shape: "has_shape3 B T D x \<Longrightarrow> has_shape3 B T D (map3 f x)"
  by (auto simp: has_shape3_def map3_def list_all_iff)

lemma map3_nth:
  "has_shape3 B T D x \<Longrightarrow> b < B \<Longrightarrow> t < T \<Longrightarrow> d < D \<Longrightarrow> map3 f x ! b ! t ! d = f (x ! b ! t ! d)"
  by (simp add: map3_def has_shape3_def list_all_length)

lemma same_shape3I: "has_shape3 B T D a \<Longrightarrow> has_shape3 B T D b \<Longrightarrow> same_shape3 a b"
  by (auto simp: has_shape3_def same_shape3_def list_all2_conv_all_nth list_all_length)

lemma sub3_shape:
  assumes "has_shape3 B T D a" "has_shape3 B T D b"
  shows "\<exists>r. sub3 a b = Inr r \<and> has_shape3 B T D r \<and>
     (\<forall>i<B. \<forall>t<T. \<forall>d<D. r ! i ! t ! d = a ! i ! t ! d - b ! i ! t ! d)"
  using assms same_shape3I[OF assms]
  by (auto simp: sub3_def has_shape3_def list_all_length)

lemma mul_bcast_shape:
  assumes "has_shape2 B T w" "has_shape3 B T D x"
  shows "\<exists>r. mul_bcast (unsqueeze_last (map (map g) w)) x = Inr r \<and> has_shape3 B T D r \<and>
     (\<forall>i<B. \<forall>t<T. \<forall>d<D. r ! i ! t ! d = g (w ! i ! t) * x ! i ! t ! d)"
  using assms
  by (auto simp: mul_bcast_def unsqueeze_last_def has_shape2_def has_shape3_def list_all_length list_all2_conv_all_nth)


lemma chunks_single: "0 < n \<Longrightarrow> length xs = n \<Longrightarrow> chunks n xs = [xs]"
  by (cases xs) (simp_all add: chunks.simps[of n "_ # _"] chunks.simps[of n "[]"] del: chunks.simps)

lemma permute_ft_replicate: "0 < n \<Longrightarrow> permute_ft (replicate n [x]) = [replicate n x]"
  by (cases n) (simp_all add: permute_ft_def)

lemma stub_get_stft_False: "get_stft stub_env [[v]] False = Inr ([[concat (replicate 257 [v, 0])]], None)"
  by (simp add: get_stft_def stub_env_def reshape_spec_def permute_ft_replicate interleave_def nfft_def
     chunks_single map_replicate length_concat sum_list_replicate del: chunks.simps)

lemma stub_get_stft_True: "get_stft stub_env [[v]] True = Inr ([[concat (replicate 257 [v, 0])]], Some [[257 * v\<^sup>2 / 256]])"
  by (simp add: get_stft_def stub_env_def reshape_spec_def permute_ft_replicate interleave_def nfft_def
     chunks_single map_replicate length_concat sum_list_replicate short_time_energy_def del: chunks.simps)

lemma concat_replicate_hd: "0 < n \<Longrightarrow> concat (replicate n (x # xs)) ! 0 = x"
  by (cases n) simp_all

lemma stub_estimate: "estimate_acoustics stub_env tr [[concat (replicate 257 [v, 0])]] = Inr [[[v, 2 * v]]]"
  by (simp add: stub_env_def concat_replicate_hd)

lemma mean_over_cong:
  "(\<And>b t d. b < B \<Longrightarrow> t < T \<Longrightarrow> d < D \<Longrightarrow> f b t d = g b t d) \<Longrightarrow>
   mean_over B T D f = mean_over B T D g"
  by (simp add: mean_over_def)

lemma sigmoid_pos: "0 < sigmoid v"
  by (simp add: sigmoid_def add_pos_pos)

lemma mean3_eq:
  assumes "has_shape3 B T D x" "0 < B" "0 < T" "0 < D"
    and "\<And>b t d. b < B \<Longrightarrow> t < T \<Longrightarrow> d < D \<Longrightarrow> x ! b ! t ! d = g b t d"
  shows "mean3 x = Inr (mean_over B T D g)"
  using mean3_shape[OF assms(1-4)] mean_over_cong[of B T D "\<lambda>b t d. x ! b ! t ! d" g] assms(5)
  by simp

lemma distance_l2:
  assumes "has_shape3 B T D ea" "has_shape3 B T D ca" "0 < B" "0 < T" "0 < D"
  shows "acoustic_distance ''l2'' ea ca en = Inr (spec_l2 B T D ea ca)"
proof -
  obtain r where r: "sub3 ea ca = Inr r" "has_shape3 B T D r"
    "\<And>b t d. b < B \<Longrightarrow> t < T \<Longrightarrow> d < D \<Longrightarrow> r ! b ! t ! d = ea ! b ! t ! d - ca ! b ! t ! d"
    using sub3_shape[OF assms(1,2)] by blast
  have "mean3 (map3 (\<lambda>v. v\<^sup>2) r) = Inr (spec_l2 B T D ea ca)"
    unfolding spec_l2_def
    by (rule mean3_eq[OF map3_shape[OF r(2)] assms(3-5)]) (simp add: map3_nth[OF r(2)] r(3))
  then show ?thesis by (simp add: acoustic_distance_def MSELoss_def r(1))
qed

lemma distance_l1:
  assumes "has_shape3 B T D ea" "has_shape3 B T D ca" "0 < B" "0 < T" "0 < D"
  shows "acoustic_distance ''l1'' ea ca en = Inr (spec_l1 B T D ea ca)"
proof -
  obtain r where r: "sub3 ea ca = Inr r" "has_shape3 B T D r"
    "\<And>b t d. b < B \<Longrightarrow> t < T \<Longrightarrow> d < D \<Longrightarrow> r ! b ! t ! d = ea ! b ! t ! d - ca ! b ! t ! d"
    using sub3_shape[OF assms(1,2)] by blast
  have "mean3 (map3 abs r) = Inr (spec_l1 B T D ea ca)"
    unfolding spec_l1_def
    by (rule mean3_eq[OF map3_shape[OF r(2)] assms(3-5)]) (simp add: map3_nth[OF r(2)] r(3))
  then show ?thesis by (simp add: acoustic_distance_def L1Loss_def r(1))
qed

lemma distance_few_l2:
  assumes "has_shape3 B T D ea" "has_shape3 B T D ca" "has_shape2 B T en" "0 < B" "0 < T" "0 < D"
  shows "acoustic_distance ''frame_energy_weighted_l2'' ea ca en = Inr (spec_few_l2 B T D ea ca en)"
proof -
  obtain r where r: "sub3 ea ca = Inr r" "has_shape3 B T D r"
    "\<And>b t d. b < B \<Longrightarrow> t < T \<Longrightarrow> d < D \<Longrightarrow> r ! b ! t ! d = ea ! b ! t ! d - ca ! b ! t ! d"
    using sub3_shape[OF assms(1,2)] by blast
  obtain p where p: "mul_bcast (unsqueeze_last (map (map (\<lambda>v. sigmoid v powr 0.5)) en)) r = Inr p"
    "has_shape3 B T D p"
    "\<And>b t d. b < B \<Longrightarrow> t < T \<Longrightarrow> d < D \<Longrightarrow> p ! b ! t ! d = (sigmoid (en ! b ! t) powr 0.5) * r ! b ! t ! d"
    using mul_bcast_shape[OF assms(3) r(2), of "\<lambda>v. sigmoid v powr 0.5"] by blast
  have half: "sigmoid v powr (1 / 2) = sqrt (sigmoid v)" for v
    using powr_half_sqrt[of "sigmoid v"] sigmoid_pos[of v] by simp
  have "mean3 (map3 (\<lambda>v. v\<^sup>2) p) = Inr (spec_few_l2 B T D ea ca en)"
    unfolding spec_few_l2_def
    by (rule mean3_eq[OF map3_shape[OF p(2)] assms(4-6)]) (simp add: map3_nth[OF p(2)] p(3) r(3) half)
  then show ?thesis using p(1) by (simp add: acoustic_distance_def r(1))
qed

lemma distance_few_l1:
  assumes "has_shape3 B T D ea" "has_shape3 B T D ca" "has_shape2 B T en" "0 < B" "0 < T" "0 < D"
  shows "acoustic_distance ''frame_energy_weighted_l1'' ea ca en = Inr (spec_few_l1 B T D ea ca en)"
proof -
  obtain r where r: "sub3 ea ca = Inr r" "has_shape3 B T D r"
    "\<And>b t d. b < B \<Longrightarrow> t < T \<Longrightarrow> d < D \<Longrightarrow> r ! b ! t ! d = ea ! b ! t ! d - ca ! b ! t ! d"
    using sub3_shape[OF assms(1,2)] by blast
  note ra = map3_shape[OF r(2), of abs]
  obtain p where p: "mul_bcast (unsqueeze_last (map (map sigmoid) en)) (map3 abs r) = Inr p"
    "has_shape3 B T D p"
    "\<And>b t d. b < B \<Longrightarrow> t < T \<Longrightarrow> d < D \<Longrightarrow> p ! b ! t ! d = sigmoid (en ! b ! t) * map3 abs r ! b ! t ! d"
    using mul_bcast_shape[OF assms(3) ra, of sigmoid] by blast
  have "mean3 p = Inr (spec_few_l1 B T D ea ca en)"
    unfolding spec_few_l1_def
    by (rule mean3_eq[OF p(2) assms(4-6)]) (simp add: map3_nth[OF r(2)] p(3) r(3))
  then show ?thesis by (simp add: acoustic_distance_def r(1) p(1))
qed


text \<open>
  C2.  For a valid mode, whenever the spectral transform and the estimator succeed and
  the two embeddings have one shape (B, T, D) with the enhanced short-time energy of shape
  (B, T), \<open>forward\<close> returns: for kind l2 the mean squared error of the embeddings, for l1
  the mean absolute error, for frame_energy_weighted_l2 the mean of
  (sqrt (sigmoid energy) * (enhanced - clean)) squared, and for frame_energy_weighted_l1
  the mean of sigmoid energy * |enhanced - clean|, the weight of a frame being applied to
  every entry of that frame.
\<close>

theorem forward_returns_distance_of_kind:
  assumes "mode = ''train'' \<or> mode = ''eval''"
    and "get_stft env clean_waveform False = Inr (cs, u)"
    and "get_stft env enhan_waveform True = Inr (es, Some en)"
    and "estimate_acoustics env (mode = ''train'') cs = Inr ca"
    and "estimate_acoustics env (mode = ''train'') es = Inr ea"
    and "has_shape3 B T D ca" and "has_shape3 B T D ea" and "has_shape2 B T en"
    and "0 < B" and "0 < T" and "0 < D"
  shows "(loss_type self = ''l2'' \<longrightarrow>
            forward env self clean_waveform enhan_waveform mode =
              Return (spec_l2 B T D ea ca) (self\<lparr>est_training := (mode = ''train'')\<rparr>)) \<and>
         (loss_type self = ''l1'' \<longrightarrow>
            forward env self clean_waveform enhan_waveform mode =
              Return (spec_l1 B T D ea ca) (self\<lparr>est_training := (mode = ''train'')\<rparr>)) \<and>
         (loss_type self = ''frame_energy_weighted_l2'' \<longrightarrow>
            forward env self clean_waveform enhan_waveform mode =
              Return (spec_few_l2 B T D ea ca en) (self\<lparr>est_training := (mode = ''train'')\<rparr>)) \<and>
         (loss_type self = ''frame_energy_weighted_l1'' \<longrightarrow>
            forward env self clean_waveform enhan_waveform mode =
              Return (spec_few_l1 B T D ea ca en) (self\<lparr>est_training := (mode = ''train'')\<rparr>))"
proof -
  note d = distance_l2[OF assms(7,6,9-11)] distance_l1[OF assms(7,6,9-11)]
    distance_few_l2[OF assms(7,6,8-11)] distance_few_l1[OF assms(7,6,8-11)]
  show ?thesis
    using assms(1) d by (auto simp: forward_def assms(2-5) Let_def)
qed

theorem forward_returns_distance_of_kind_witness:
  "forward stub_env \<lparr>loss_type = ''l2'', est_training = False\<rparr> [[1]] [[3]] ''eval'' =
     Return 10 \<lparr>loss_type = ''l2'', est_training = False\<rparr> \<and>
   forward stub_env \<lparr>loss_type = ''l1'', est_training = False\<rparr> [[1]] [[3]] ''train'' =
     Return 3 \<lparr>loss_type = ''l1'', est_training = True\<rparr> \<and>
   forward stub_env \<lparr>loss_type = ''frame_energy_weighted_l1'', est_training = False\<rparr>
       [[1]] [[3]] ''train'' =
     Return (spec_few_l1 1 1 2 [[[3, 6]]] [[[1, 2]]] [[257 * 3\<^sup>2 / 256]])
       \<lparr>loss_type = ''frame_energy_weighted_l1'', est_training = True\<rparr>"
proof -
  have s3: "has_shape3 1 1 2 [[[1, 2]]]" "has_shape3 1 1 2 [[[3, 6]]]"
    by (simp_all add: has_shape3_def)
  have s2: "has_shape2 1 1 [[257 * 3\<^sup>2 / 256]]"
    by (simp add: has_shape2_def)
  have v: "spec_l2 1 1 2 [[[3, 6]]] [[[1, 2]]] = 10" "spec_l1 1 1 2 [[[3, 6]]] [[[1, 2]]] = 3"
    by (simp_all add: spec_l2_def spec_l1_def mean_over_def numeral_2_eq_2)
  have a: "forward stub_env \<lparr>loss_type = ''l2'', est_training = False\<rparr> [[1]] [[3]] ''eval'' =
     Return 10 \<lparr>loss_type = ''l2'', est_training = False\<rparr>"
    using forward_returns_distance_of_kind[of "''eval''" stub_env "[[1]]" _ None "[[3]]" _ _
        "[[[1, 2]]]" "[[[3, 6]]]" 1 1 2 "\<lparr>loss_type = ''l2'', est_training = False\<rparr>",
        OF _ stub_get_stft_False stub_get_stft_True _ _ s3 s2] v
    by (simp add: stub_estimate[of _ 1, simplified] stub_estimate[of _ 3, simplified])
  have b: "forward stub_env \<lparr>loss_type = ''l1'', est_training = False\<rparr> [[1]] [[3]] ''train'' =
     Return 3 \<lparr>loss_type = ''l1'', est_training = True\<rparr>"
    using forward_returns_distance_of_kind[of "''train''" stub_env "[[1]]" _ None "[[3]]" _ _
        "[[[1, 2]]]" "[[[3, 6]]]" 1 1 2 "\<lparr>loss_type = ''l1'', est_training = False\<rparr>",
        OF _ stub_get_stft_False stub_get_stft_True _ _ s3 s2] v
    by (simp add: stub_estimate[of _ 1, simplified] stub_estimate[of _ 3, simplified])
  have c: "forward stub_env \<lparr>loss_type = ''frame_energy_weighted_l1'', est_training = False\<rparr>
       [[1]] [[3]] ''train'' =
     Return (spec_few_l1 1 1 2 [[[3, 6]]] [[[1, 2]]] [[257 * 3\<^sup>2 / 256]])
       \<lparr>loss_type = ''frame_energy_weighted_l1'', est_training = True\<rparr>"
    using forward_returns_distance_of_kind[of "''train''" stub_env "[[1]]" _ None "[[3]]" _ _
        "[[[1, 2]]]" "[[[3, 6]]]" 1 1 2
        "\<lparr>loss_type = ''frame_energy_weighted_l1'', est_training = False\<rparr>",
        OF _ stub_get_stft_False stub_get_stft_True _ _ s3 s2]
    by (simp add: stub_estimate[of _ 1, simplified] stub_estimate[of _ 3, simplified])
  from a b c show ?thesis by simp
qed

section \<open>The short-time energy of get_stft\<close>

lemma reflect_pad_const: "p < n \<Longrightarrow> reflect_pad p (replicate n c) = replicate (n + 2 * p) c"
  by (simp add: reflect_pad_def replicate_add[symmetric] min_def del: replicate_add)

lemma analysis_frame_const:
  "n div 2 < L \<Longrightarrow> t * hop + n \<le> L + 2 * (n div 2) \<Longrightarrow>
   analysis_frame n hop (replicate L c) t = replicate n c"
  by (simp add: analysis_frame_def reflect_pad_const min_def)

lemma cis_sum_zero:
  assumes "0 < f" "f < n"
  shows "(\<Sum>k<n. cis (2 * pi * real f * real k / real n)) = 0"
proof -
  define z where "z = cis (2 * pi * real f / real n)"
  have n0: "0 < n" using assms by simp
  have zk: "cis (2 * pi * real f * real k / real n) = z ^ k" for k
    by (simp add: z_def Complex.DeMoivre mult.commute mult.left_commute)
  have zn: "z ^ n = 1"
  proof -
    have "z ^ n = cis (real n * (2 * pi * real f / real n))" by (simp add: z_def Complex.DeMoivre)
    also have "real n * (2 * pi * real f / real n) = 2 * pi * real f" using n0 by simp
    also have "cis (2 * pi * real f) = 1" by (rule cis_multiple_2pi) simp
    finally show ?thesis .
  qed
  have z1: "z \<noteq> 1"
  proof
    assume "z = 1"
    then have "cos (2 * pi * real f / real n) = 1" by (simp add: z_def cis.ctr complex_eq_iff)
    then obtain k :: int where k: "2 * pi * real f / real n = 2 * pi * of_int k"
      using cos_one_2pi_int by (metis mult.commute mult.assoc)
    then have "2 * pi * (real f / real n) = 2 * pi * of_int k" by simp
    then have "real f / real n = of_int k" by (simp only: mult_cancel_left) (simp)
    then have "real f = of_int k * real n" using n0 by (simp add: field_simps)
    then have "real f = real_of_int (k * int n)" by simp
    then have fk: "int f = k * int n" by (metis of_int_eq_iff of_int_of_nat_eq)
    show False
    proof (cases "k \<le> 0")
      case True
      then have "k * int n \<le> 0" by (simp add: mult_le_0_iff)
      with fk assms(1) show False by simp
    next
      case False
      then have "1 * int n \<le> k * int n" by (intro mult_right_mono) simp_all
      with fk assms(2) show False by simp
    qed
  qed
  have "(\<Sum>k<n. z ^ k) = (z ^ n - 1) / (z - 1)" using z1 by (rule geometric_sum)
  then show ?thesis by (simp add: zk zn)
qed


lemma cos_sin_sum_zero:
  assumes "0 < f" "f < n"
  shows "(\<Sum>k\<leftarrow>[0..<n]. cos (2 * pi * real f * real k / real n)) = 0"
    and "(\<Sum>k\<leftarrow>[0..<n]. sin (2 * pi * real f * real k / real n)) = 0"
proof -
  have c: "(\<Sum>k<n. cis (2 * pi * real f * real k / real n)) = 0"
    by (rule cis_sum_zero[OF assms])
  have "Re (\<Sum>k<n. cis (2 * pi * real f * real k / real n)) = 0"
    and "Im (\<Sum>k<n. cis (2 * pi * real f * real k / real n)) = 0"
    by (simp_all only: c zero_complex.sel)
  then show "(\<Sum>k\<leftarrow>[0..<n]. cos (2 * pi * real f * real k / real n)) = 0"
    and "(\<Sum>k\<leftarrow>[0..<n]. sin (2 * pi * real f * real k / real n)) = 0"
    by (simp_all add: interv_sum_list_conv_sum_set_nat atLeast0LessThan)
qed

lemma sum_list_const_frame:
  "(\<Sum>k\<leftarrow>[0..<n]. replicate n c ! k * g k) = c * (\<Sum>k\<leftarrow>[0..<n]. g k)" for c :: real
proof -
  have "map (\<lambda>k. replicate n c ! k * g k) [0..<n] = map (\<lambda>k. c * g k) [0..<n]"
    by (rule map_cong) simp_all
  then have "(\<Sum>k\<leftarrow>[0..<n]. replicate n c ! k * g k) = (\<Sum>k\<leftarrow>[0..<n]. c * g k)"
    by (simp only:)
  also have "\<dots> = c * (\<Sum>k\<leftarrow>[0..<n]. g k)"
    by (rule sum_list_const_mult)
  finally show ?thesis .
qed

lemma dft_bin_const_dc: "dft_bin n (replicate n c) 0 = (real n * c, 0)"
  using sum_list_const_frame[of n c "\<lambda>k. 1"]
  by (simp add: dft_bin_def sum_list_triv)

lemma dft_bin_const_other: "0 < f \<Longrightarrow> f < n \<Longrightarrow> dft_bin n (replicate n c) f = (0, 0)"
  by (simp add: dft_bin_def sum_list_const_frame cos_sin_sum_zero)


lemma torch_stft_const:
  "torch_stft [replicate 512 c] 512 160 =
     Inr [replicate 4 (512 * c, 0) # replicate 256 (replicate 4 (0, 0))]"
proof -
  have fr: "map (\<lambda>t. dft_bin 512 (analysis_frame 512 160 (replicate 512 c) t) f) [0..<4] =
      replicate 4 (dft_bin 512 (replicate 512 c) f)" for f
  proof -
    have "map (\<lambda>t. dft_bin 512 (analysis_frame 512 160 (replicate 512 c) t) f) [0..<4] =
        map (\<lambda>t. dft_bin 512 (replicate 512 c) f) [0..<4]"
      by (rule map_cong) (simp_all add: analysis_frame_const)
    then show ?thesis by (simp add: map_replicate_const)
  qed
  have rest: "map (\<lambda>f. replicate 4 (dft_bin 512 (replicate 512 c) f)) [Suc 0..<257] =
      replicate 256 (replicate 4 (0, 0))"
  proof -
    have "map (\<lambda>f. replicate 4 (dft_bin 512 (replicate 512 c) f)) [Suc 0..<257] =
        map (\<lambda>f. replicate 4 (0, 0)) [Suc 0..<257]"
      by (rule map_cong) (simp_all add: dft_bin_const_other)
    then show ?thesis by (simp add: map_replicate_const)
  qed
  have split: "[0..<257] = 0 # [Suc 0..<257]"
    by (simp add: upt_conv_Cons)
  show ?thesis
    using dft_bin_const_dc[of 512 c]
    by (simp add: torch_stft_def fr split rest del: upt_Suc)
qed

lemma permute_ft_block:
  "permute_ft (replicate n a # replicate m (replicate n b)) = replicate n (a # replicate m b)"
proof -
  have "map (\<lambda>t. map (\<lambda>row. row ! t) (replicate n a # replicate m (replicate n b))) [0..<n] =
      map (\<lambda>t. a # replicate m b) [0..<n]"
    by (rule map_cong) simp_all
  then show ?thesis by (simp add: permute_ft_def map_replicate_const)
qed

lemma short_time_energy_const:
  "short_time_energy (replicate 4 (512 * c, 0) # replicate 256 (replicate 4 (0, 0))) =
     replicate 4 (1024 * c\<^sup>2)"
  by (simp add: short_time_energy_def permute_ft_block nfft_def sum_list_replicate power_mult_distrib)

lemma reshape_spec_const:
  "\<exists>sp. reshape_spec (replicate 4 (a, b) # replicate 256 (replicate 4 (0, 0))) = Inr sp"
  by (simp add: reshape_spec_def permute_ft_block nfft_def interleave_def length_concat
      sum_list_replicate Let_def del: chunks.simps)

text \<open>
  C7.  The short-time energy the source computes, 2 / nfft times the sum over the 257
  one-sided bins of the squared real plus the squared imaginary part, counts the bin at frequency 0 (and the one at
  nfft / 2) twice as heavily as Parseval's identity does.  On the waveform of 512 samples
  all equal to 1, each of the four analysis frames holds 512 ones and has time-domain
  energy 512, and \<open>get_stft\<close> returns 1024 for each of them.
\<close>

theorem st_energy_constant_wave:
  "(\<exists>sp. get_stft (stub_env\<lparr>stft := torch_stft\<rparr>) [replicate 512 1] True =
      Inr (sp, Some [[1024, 1024, 1024, 1024]])) \<and>
   map (\<lambda>t. frame_energy (analysis_frame nfft hop_length (replicate 512 1) t)) [0..<4] =
     [512, 512, 512, 512]"
proof -
  obtain sp where sp: "reshape_spec (replicate 4 (512 * 1, 0) # replicate 256 (replicate 4 (0, 0))) = Inr sp"
    using reshape_spec_const by blast
  have e: "replicate 4 (1024 :: real) = [1024, 1024, 1024, 1024]"
    by (simp add: numeral_eq_Suc)
  have "get_stft (stub_env\<lparr>stft := torch_stft\<rparr>) [replicate 512 1] True =
      Inr ([sp], Some [[1024, 1024, 1024, 1024]])"
    using sp short_time_energy_const[of 1] torch_stft_const[of 1]
    by (simp add: get_stft_def nfft_def hop_length_def e)
  moreover have "map (\<lambda>t. frame_energy (analysis_frame nfft hop_length (replicate 512 1) t)) [0..<4] =
      map (\<lambda>t. 512) [0..<4]"
    by (rule map_cong) (simp_all add: analysis_frame_const nfft_def hop_length_def frame_energy_def sum_list_replicate)
  ultimately show ?thesis by (auto simp: numeral_eq_Suc)
qed

section \<open>Where an unrecognised loss kind is rejected\<close>

text \<open>
  C6, as the claim states it, fails: with a checkpoint that loads, \<^verbatim>\<open>__init__\<close> returns
  an object for the kind \<open>cosine\<close>, which is none of the four.
\<close>

theorem init_accepts_unrecognized_kind:
  "''cosine'' \<notin> set recognized_kinds \<and>
   AcousticLoss_init [''tap.pt'' \<mapsto> Some (0 :: nat)] (\<lambda>sd. True) ''cosine'' ''tap.pt'' =
     Inr \<lparr>loss_type = ''cosine'', est_training = True\<rparr>"
  by (simp add: recognized_kinds_def AcousticLoss_init_def)

text \<open>
  C6, amended.  Construction never looks at the loss kind: for a kind outside the four it
  fails exactly when it fails for \<open>l2\<close> (the checkpoint is missing, lacks its key or is
  refused by the estimator), and otherwise returns the object.  The configuration error
  is deferred: every later \<open>forward\<close> with a valid mode, once the spectral transform
  and the estimator have run, raises \<open>ValueError\<close> "Invalid loss_type" with the kind.
\<close>

theorem unrecognized_kind_rejected_by_forward:
  assumes "lt \<notin> set recognized_kinds"
    and "store path = Some (Some sd)" and "accepts sd"
    and "mode = ''train'' \<or> mode = ''eval''"
    and "get_stft env clean_waveform False = Inr (cs, u)"
    and "get_stft env enhan_waveform True = Inr (es, st)"
    and "estimate_acoustics env (mode = ''train'') cs = Inr ca"
    and "estimate_acoustics env (mode = ''train'') es = Inr ea"
  shows "AcousticLoss_init store accepts lt path = Inr \<lparr>loss_type = lt, est_training = True\<rparr> \<and>
         forward env \<lparr>loss_type = lt, est_training = True\<rparr> clean_waveform enhan_waveform mode =
           Raise (ValueError (''Invalid loss_type '' @ lt))
             \<lparr>loss_type = lt, est_training = (mode = ''train'')\<rparr> \<and>
         (\<exists>e. AcousticLoss_init store' accepts' lt path' = Inl e) =
           (\<exists>e. AcousticLoss_init store' accepts' ''l2'' path' = Inl e)"
proof -
  have d: "acoustic_distance lt ea ca (case st of None \<Rightarrow> [] | Some en \<Rightarrow> en) =
      Inl (ValueError (''Invalid loss_type '' @ lt))"
    using assms(1) by (auto simp: acoustic_distance_def recognized_kinds_def)
  have i: "AcousticLoss_init store accepts lt path = Inr \<lparr>loss_type = lt, est_training = True\<rparr>"
    by (simp add: AcousticLoss_init_def assms(2,3))
  have f: "forward env \<lparr>loss_type = lt, est_training = True\<rparr> clean_waveform enhan_waveform mode =
           Raise (ValueError (''Invalid loss_type '' @ lt))
             \<lparr>loss_type = lt, est_training = (mode = ''train'')\<rparr>"
    using assms(4) d by (auto simp: forward_def assms(5-8) Let_def)
  have k: "(\<exists>e. AcousticLoss_init store' accepts' lt path' = Inl e) =
           (\<exists>e. AcousticLoss_init store' accepts' ''l2'' path' = Inl e)"
    by (auto simp: AcousticLoss_init_def split: option.splits)
  from i f k show ?thesis by blast
qed

theorem unrecognized_kind_rejected_by_forward_witness:
  "AcousticLoss_init [''tap.pt'' \<mapsto> Some (0 :: nat)] (\<lambda>sd. True) ''cosine'' ''tap.pt'' =
     Inr \<lparr>loss_type = ''cosine'', est_training = True\<rparr> \<and>
   forward stub_env \<lparr>loss_type = ''cosine'', est_training = True\<rparr> [[1]] [[3]] ''eval'' =
     Raise (ValueError ''Invalid loss_type cosine'')
       \<lparr>loss_type = ''cosine'', est_training = False\<rparr>"
proof -
  have k: "''cosine'' \<notin> set recognized_kinds"
    by (simp add: recognized_kinds_def)
  show ?thesis
    using k unrecognized_kind_rejected_by_forward[where lt = "''cosine''"
        and store = "[''tap.pt'' \<mapsto> Some (0 :: nat)]" and path = "''tap.pt''" and sd = 0
        and accepts = "\<lambda>sd. True" and mode = "''eval''" and env = stub_env
        and clean_waveform = "[[1]]" and enhan_waveform = "[[3]]"
        and cs = "[[concat (replicate 257 [1, 0])]]" and u = None
        and es = "[[concat (replicate 257 [3, 0])]]" and st = "Some [[257 * 3\<^sup>2 / 256]]"
        and ca = "[[[1, 2]]]" and ea = "[[[3, 6]]]"
        and store' = "[''tap.pt'' \<mapsto> Some (0 :: nat)]" and accepts' = "\<lambda>sd. True"
        and path' = "''tap.pt''"]
      stub_get_stft_False[of 1] stub_get_stft_True[of 3]
      stub_estimate[of False 1] stub_estimate[of False 3]
    by simp
qed

section \<open>Properties of solver.py\<close>

lemma bind_Return [simp]: "bind (Return a s) f = f a s"
  by (simp add: bind_def)

lemma bind_Raise [simp]: "bind (Raise err s) f = Raise err s"
  by (simp add: bind_def)

lemma bind_ReturnD:
  "bind r f = Return b s1 \<Longrightarrow> \<exists>a s0. r = Return a s0 \<and> f a s0 = Return b s1"
  by (cases r) simp_all

lemma string_of_int_1: "string_of_int 1 = ''1''"
  by (simp add: string_of_int_def digit_char_def)

text \<open>
  \<^verbatim>\<open>_serialize\<close> writes each of its two files under a temporary name and renames it:
  when the four names involved are distinct, no state the disk goes through holds a
  partial file under \<^verbatim>\<open>checkpoint_file\<close> or \<^verbatim>\<open>best_file\<close>, and at the end both hold
  the complete contents.
\<close>

lemma serialize_is_atomic:
  assumes "serialize cfg self = Return u s1"
    and "disk self (checkpoint_file cfg) \<noteq> Some (File Partial)"
    and "disk self (best_file cfg) \<noteq> Some (File Partial)"
    and "checkpoint_file cfg @ ''.tmp'' \<noteq> best_file cfg"
    and "best_file cfg @ ''.tmp'' \<noteq> checkpoint_file cfg"
    and "checkpoint_file cfg \<noteq> best_file cfg"
  shows "\<exists>new. seen s1 = seen self @ new \<and>
           list_all (\<lambda>d. d (checkpoint_file cfg) \<noteq> Some (File Partial) \<and>
                          d (best_file cfg) \<noteq> Some (File Partial)) (new @ [disk s1]) \<and>
           disk s1 (checkpoint_file cfg) = Some (File (Package (make_package cfg self))) \<and>
           disk s1 (best_file cfg) = Some (File (ModelFile (best_state self)))"
  using assms
  by (auto simp: serialize_def os_rename_def write_file_def Let_def bind_def
      split: if_splits option.splits)

text \<open>
  C4.  \<^verbatim>\<open>save_ckpts\<close> writes the periodic checkpoint straight to its final name: on a
  fresh solver with the toggle on, the disk goes through a state in which
  ./checkpoints/checkpoint_epoch_1.pt is a partial file, and no rename takes place.
\<close>

theorem save_ckpts_leaves_partial_file:
  "\<exists>s1. save_ckpts (demo_args\<lparr>save_checkpoints := True\<rparr>) demo_solver = Return () s1 \<and>
     seen s1 = [Map.empty, [''./checkpoints'' \<mapsto> Dir],
                [''./checkpoints'' \<mapsto> Dir, ''./checkpoints/checkpoint_epoch_1.pt'' \<mapsto> File Partial]] \<and>
     disk s1 = [''./checkpoints'' \<mapsto> Dir,
                ''./checkpoints/checkpoint_epoch_1.pt'' \<mapsto>
                  File (Package \<lparr>pkg_model = 0, pkg_optimizer = Some 0, pkg_history = [],
                                 pkg_best_state = None\<rparr>)]"
  by (simp add: save_ckpts_def os_mkdir_def write_file_def open_for_writing_def parent_dir_def
      Let_def demo_args_def demo_solver_def fresh_def make_package_def string_of_int_1)


lemma final_simps [simp]: "final (Return a s) = s" "final (Raise err s) = s"
  by (simp_all add: final_def)

lemma final_bind:
  "final (bind r f) = (case r of Return a s \<Rightarrow> final (f a s) | Raise err s \<Rightarrow> s)"
  by (cases r) simp_all

lemma epoch_starts_append [simp]: "epoch_starts (xs @ ys) = epoch_starts xs @ epoch_starts ys"
  by (induction xs rule: epoch_starts.induct) simp_all

lemma ac_modes_append [simp]: "ac_modes (xs @ ys) = ac_modes xs @ ac_modes ys"
  by (induction xs rule: ac_modes.induct) simp_all

lemma pass_frame_refl [simp]: "pass_frame s s"
  by (simp add: pass_frame_def)

lemma pass_frame_trans: "pass_frame a b \<Longrightarrow> pass_frame b c \<Longrightarrow> pass_frame a c"
  unfolding pass_frame_def
  by (auto simp: replicate_add[symmetric] simp del: replicate_add)

lemma pass_frame_bind:
  assumes "pass_frame self (final r)"
    and "\<And>a s. r = Return a s \<Longrightarrow> pass_frame s (final (f a s))"
  shows "pass_frame self (final (bind r f))"
  using assms by (cases r) (auto intro: pass_frame_trans)

lemma save_ckpts_frame: "pass_frame self (final (save_ckpts cfg self))"
  by (simp add: save_ckpts_def os_mkdir_def write_file_def Let_def pass_frame_def
      split: option.splits)

lemma forward_train_flag:
  "forward env al c w ''train'' = Return v al1 \<or> forward env al c w ''train'' = Raise err al1 \<Longrightarrow>
   est_training al1"
  by (auto simp: forward_def Let_def split: sum.splits prod.splits)

lemma call_ac_loss_final:
  "\<exists>al. final (call_ac_loss e clean estimate self) =
     self\<lparr>events := events self @ [AcousticCall None], ac_loss := al\<rparr> \<and> est_training al"
proof (cases "ac_call (ac_collab e) (ac_loss self) (squeeze1 e clean) (squeeze1 e estimate) None")
  case (Return v al)
  then show ?thesis
    using forward_train_flag[of "ac_collab e" "ac_loss self" _ _ v al]
    by (auto simp: call_ac_loss_def ac_call_def Let_def)
next
  case (Raise err al)
  then show ?thesis
    using forward_train_flag[of "ac_collab e" "ac_loss self" _ _ _ al err]
    by (auto simp: call_ac_loss_def ac_call_def Let_def)
qed

lemma call_ac_loss_frame: "pass_frame self (final (call_ac_loss e clean estimate self))"
proof -
  obtain al where "final (call_ac_loss e clean estimate self) =
     self\<lparr>events := events self @ [AcousticCall None], ac_loss := al\<rparr>"
    using call_ac_loss_final[of e clean estimate self] by blast
  then show ?thesis
    by (auto simp: pass_frame_def intro: exI[of _ 1])
qed

lemma compute_loss_frame: "pass_frame self (final (compute_loss cfg e clean estimate self))"
  using call_ac_loss_frame[of self e clean estimate]
  by (cases "call_ac_loss e clean estimate self")
     (auto simp: compute_loss_def Let_def split: prod.splits)


lemma pass_frame_events:
  "pass_frame self s1 \<Longrightarrow> epoch_starts evs = [] \<Longrightarrow> ac_modes evs = [] \<Longrightarrow>
   pass_frame self (s1\<lparr>events := events s1 @ evs\<rparr>)"
  by (simp add: pass_frame_def)

lemma optim_tail_frame:
  "pass_frame s4 (final (if \<not> cross_valid
                       then (case optim_step e clip (model s4) (optimizer s4) noisy clean of
                               (m, opt) \<Rightarrow>
                                 Return l (s4\<lparr>model := m, optimizer := opt,
                                              events := events s4 @ [OptimStep]\<rparr>))
                       else Return l s4))"
  by (cases "optim_step e clip (model s4) (optimizer s4) noisy clean")
     (simp add: pass_frame_def)

lemma loss_tail_frame:
  assumes "epoch_starts evs = []" and "ac_modes evs = []"
  shows "pass_frame s1 (final (bind (compute_loss cfg e clean estimate (s1\<lparr>events := events s1 @ evs\<rparr>))
                    (\<lambda>l s4.
                       if \<not> cross_valid
                       then (case optim_step e clip (model s4) (optimizer s4) noisy clean of
                               (m, opt) \<Rightarrow>
                                 Return l (s4\<lparr>model := m, optimizer := opt,
                                              events := events s4 @ [OptimStep]\<rparr>))
                       else Return l s4)))"
proof -
  have a: "pass_frame s1 (s1\<lparr>events := events s1 @ evs\<rparr>)"
    using assms by (simp add: pass_frame_def)
  have b: "pass_frame (s1\<lparr>events := events s1 @ evs\<rparr>)
      (final (bind (compute_loss cfg e clean estimate (s1\<lparr>events := events s1 @ evs\<rparr>))
                    (\<lambda>l s4.
                       if \<not> cross_valid
                       then (case optim_step e clip (model s4) (optimizer s4) noisy clean of
                               (m, opt) \<Rightarrow>
                                 Return l (s4\<lparr>model := m, optimizer := opt,
                                              events := events s4 @ [OptimStep]\<rparr>))
                       else Return l s4)))"
    by (rule pass_frame_bind[OF compute_loss_frame]) (rule optim_tail_frame)
  from a b show ?thesis by (rule pass_frame_trans)
qed

lemma process_batch_frame: "pass_frame self (final (process_batch cfg e cross_valid i data self))"
proof -
  obtain noisy0 clean0 where data: "data = (noisy0, clean0)" by (cases data)
  define r0 where "r0 = (if (i + 1) mod 1000 = 0 \<and> \<not> cross_valid then save_ckpts cfg self else Return () self)"
  have f0: "pass_frame self (final r0)"
    by (simp add: r0_def save_ckpts_frame)
  show ?thesis
  proof (cases cross_valid)
    case True
    show ?thesis
      unfolding process_batch_def r0_def[symmetric] data
      by (rule pass_frame_bind[OF f0])
         (simp add: True Let_def loss_tail_frame[where cross_valid = True, simplified])
  next
    case False
    obtain noise clean where aug: "augment e (w_sub e noisy0 clean0) clean0 = (noise, clean)"
      by (cases "augment e (w_sub e noisy0 clean0) clean0")
    show ?thesis
      unfolding process_batch_def r0_def[symmetric] data
      by (rule pass_frame_bind[OF f0])
         (simp add: False Let_def aug loss_tail_frame[where cross_valid = False, simplified])
  qed
qed

lemma run_batches_frame:
  "pass_frame self (final (run_batches cfg e cross_valid i bs totals self))"
proof (induction bs arbitrary: i totals self)
  case Nil
  then show ?case by simp
next
  case (Cons b bs)
  show ?case
    unfolding run_batches.simps
    by (rule pass_frame_bind[OF process_batch_frame]) (auto split: prod.splits intro: Cons.IH)
qed

lemma run_one_epoch_frame: "pass_frame self (final (run_one_epoch cfg e ep cross_valid self))"
proof (cases "if \<not> cross_valid then Some (tr_loader e) else cv_loader e")
  case None
  then show ?thesis by (simp add: run_one_epoch_def)
next
  case (Some bs)
  show ?thesis
    unfolding run_one_epoch_def Some option.case
    by (rule pass_frame_bind[OF run_batches_frame]) (auto split: prod.splits simp: Let_def)
qed


lemma write_file_result:
  "write_file c p self = Return u s1 \<Longrightarrow> s1 = self\<lparr>seen := seen s1, disk := disk s1\<rparr>"
  by (auto simp: write_file_def split: option.splits)

lemma save_ckpts_result:
  "save_ckpts cfg self = Return u s1 \<Longrightarrow> s1 = self\<lparr>seen := seen s1, disk := disk s1\<rparr>"
  by (auto simp: save_ckpts_def os_mkdir_def write_file_def Let_def split: if_splits option.splits)

lemma serialize_result:
  "serialize cfg self = Return u s1 \<Longrightarrow> s1 = self\<lparr>seen := seen s1, disk := disk s1\<rparr>"
  by (auto simp: serialize_def os_rename_def write_file_def Let_def bind_def
      split: if_splits option.splits result.splits)

lemma min_list_snoc: "min_list (xs @ [v]) = Min (set (xs @ [v]))"
  by (rule min_list_Min) simp

lemma persist_epoch_result:
  assumes "persist_epoch cfg e s5 = Return u s1"
  shows "s1 = s5\<lparr>seen := seen s1, disk := disk s1\<rparr>"
proof (cases "rank e = 0")
  case False
  with assms show ?thesis by (auto simp: persist_epoch_def)
next
  case True
  with assms obtain a s6 where w: "write_file (HistoryJson (history s5)) (history_file cfg) s5 = Return a s6"
    and r: "(if checkpoint cfg then bind (save_ckpts cfg s6) (\<lambda>_ s7. serialize cfg s7)
             else Return () s6) = Return u s1"
    by (auto simp: persist_epoch_def dest!: bind_ReturnD)
  from write_file_result[OF w] obtain sn d where s6: "s6 = s5\<lparr>seen := sn, disk := d\<rparr>"
    by blast
  show ?thesis
  proof (cases "checkpoint cfg")
    case False
    with r have "s1 = s6" by simp
    with s6 show ?thesis by simp
  next
    case c: True
    with r obtain b s7 where k: "save_ckpts cfg s6 = Return b s7"
      and z: "serialize cfg s7 = Return u s1"
      by (auto dest!: bind_ReturnD)
    from save_ckpts_result[OF k] obtain sn7 d7 where s7: "s7 = s6\<lparr>seen := sn7, disk := d7\<rparr>"
      by blast
    from serialize_result[OF z] obtain sn1 d1 where "s1 = s7\<lparr>seen := sn1, disk := d1\<rparr>"
      by blast
    then show ?thesis by (simp add: s7 s6)
  qed
qed

lemma record_epoch_result:
  assumes "record_epoch cfg e ep train_loss valid_loss s2 = Return u s1"
  shows "\<exists>r. history s1 = history s2 @ [r] \<and> m_valid r = valid_loss \<and>
           m_best r = Min (set (map m_valid (history s2 @ [r]))) \<and>
           best_state s1 = (if m_valid r = m_best r then Some (model s2) else best_state s2) \<and>
           model s1 = model s2 \<and> epoch s1 = epoch s2 \<and>
           epoch_starts (events s1) = epoch_starts (events s2)"
proof -
  have best: "min_list (pull_metric (history s2) @ [valid_loss]) =
      Min (set (map m_valid (history s2) @ [valid_loss]))"
    unfolding pull_metric_def by (rule min_list_snoc)
  from assms obtain s5 where p: "persist_epoch cfg e s5 = Return u s1"
    and s5: "\<exists>r. history s5 = history s2 @ [r] \<and> m_valid r = valid_loss \<and>
           m_best r = Min (set (map m_valid (history s2 @ [r]))) \<and>
           best_state s5 = (if m_valid r = m_best r then Some (model s2) else best_state s2) \<and>
           model s5 = model s2 \<and> epoch s5 = epoch s2 \<and>
           epoch_starts (events s5) = epoch_starts (events s2)"
    by (auto simp: record_epoch_def Let_def best split: if_splits prod.splits)
  from persist_epoch_result[OF p] obtain sn d where "s1 = s5\<lparr>seen := sn, disk := d\<rparr>"
    by blast
  with s5 show ?thesis by simp
qed


lemma run_one_epoch_ReturnD:
  "run_one_epoch cfg e ep cross_valid self = Return l s1 \<Longrightarrow> pass_frame self s1"
  using run_one_epoch_frame[of self cfg e ep cross_valid] by simp

lemma train_epoch_result:
  assumes "train_epoch cfg e ep self = Return u s1"
  shows "\<exists>r. history s1 = history self @ [r] \<and>
           m_best r = Min (set (map m_valid (history self @ [r]))) \<and>
           best_state s1 = (if m_valid r = m_best r then Some (model s1) else best_state self) \<and>
           epoch s1 = ep \<and>
           epoch_starts (events s1) = epoch_starts (events self) @ [ep] \<and>
           (truthy (cv_loader e) \<or> m_valid r = 0)"
proof -
  define s0 where "s0 = self\<lparr>epoch := ep, model_training := True,
                   events := events self @ [EpochStart ep]\<rparr>"
  from assms obtain tl sA where a: "run_one_epoch cfg e ep False s0 = Return tl sA"
    and b: "bind (if truthy (cv_loader e)
                then bind (run_one_epoch cfg e ep True (sA\<lparr>model_training := False\<rparr>))
                       (\<lambda>valid_losses s2. Return (total_loss valid_losses) s2)
                else Return 0 sA)
            (\<lambda>valid_loss s2. record_epoch cfg e ep (total_loss tl) valid_loss s2) = Return u s1"
    unfolding train_epoch_def s0_def[symmetric] by (blast dest: bind_ReturnD)
  from b obtain vl sB where c: "(if truthy (cv_loader e)
                then bind (run_one_epoch cfg e ep True (sA\<lparr>model_training := False\<rparr>))
                       (\<lambda>valid_losses s2. Return (total_loss valid_losses) s2)
                else Return 0 sA) = Return vl sB"
    and d: "record_epoch cfg e ep (total_loss tl) vl sB = Return u s1"
    by (blast dest: bind_ReturnD)
  have fA: "pass_frame s0 sA" by (rule run_one_epoch_ReturnD[OF a])
  have fB: "history sB = history sA \<and> best_state sB = best_state sA \<and> epoch sB = epoch sA \<and>
      epoch_starts (events sB) = epoch_starts (events sA) \<and> (truthy (cv_loader e) \<or> vl = 0)"
  proof (cases "truthy (cv_loader e)")
    case True
    with c obtain l where "run_one_epoch cfg e ep True (sA\<lparr>model_training := False\<rparr>) = Return l sB"
      by (auto dest: bind_ReturnD)
    from run_one_epoch_ReturnD[OF this] True show ?thesis by (simp add: pass_frame_def)
  next
    case False
    with c show ?thesis by simp
  qed
  from record_epoch_result[OF d] obtain r where r: "history s1 = history sB @ [r]"
    "m_valid r = vl" "m_best r = Min (set (map m_valid (history sB @ [r])))"
    "best_state s1 = (if m_valid r = m_best r then Some (model sB) else best_state sB)"
    "model s1 = model sB" "epoch s1 = epoch sB"
    "epoch_starts (events s1) = epoch_starts (events sB)"
    by blast
  show ?thesis
    using r fA fB by (intro exI[of _ r]) (simp add: pass_frame_def s0_def)
qed

lemma history_inv_snoc:
  assumes "history_inv h" and "m_best r = Min (set (map m_valid (h @ [r])))"
  shows "history_inv (h @ [r])"
  using assms by (auto simp: history_inv_def list_all_iff nth_append)

lemma py_range_length: "length (py_range a b) = nat (b - a)"
  by (simp add: py_range_def)

lemma for_epochs_result:
  assumes "for_epochs cfg e eps self = Return u s1"
  shows "length (history s1) = length (history self) + length eps \<and>
         take (length (history self)) (history s1) = history self \<and>
         epoch_starts (events s1) = epoch_starts (events self) @ eps \<and>
         (history_inv (history self) \<longrightarrow> history_inv (history s1)) \<and>
         list_all (\<lambda>k. m_best (history s1 ! k) = Min (set (map m_valid (take (Suc k) (history s1)))))
           [length (history self)..<length (history s1)]"
  using assms
proof (induction eps arbitrary: self)
  case Nil
  then show ?case by simp
next
  case (Cons ep eps)
  from Cons.prems obtain a s0 where t: "train_epoch cfg e ep self = Return a s0"
    and f: "for_epochs cfg e eps s0 = Return u s1"
    by (auto dest: bind_ReturnD)
  from train_epoch_result[OF t] obtain r where r: "history s0 = history self @ [r]"
    "m_best r = Min (set (map m_valid (history self @ [r])))"
    "epoch_starts (events s0) = epoch_starts (events self) @ [ep]"
    by blast
  note ih = Cons.IH[OF f]
  have tk: "take (Suc (length (history self))) (history s1) = history self @ [r]"
    using ih r(1) by simp
  have pre: "take (length (history self)) (history s1) = history self"
    using tk by (metis append_eq_conv_conj take_take min.absorb1 Suc_n_not_le_n nat_le_linear butlast_snoc butlast_take diff_Suc_1 length_append_singleton length_take)
  have nth: "history s1 ! length (history self) = r"
    using tk ih r(1)
    by (metis length_append_singleton lessI nth_append_length nth_take)
  have len: "length (history s1) = length (history self) + length (ep # eps)"
    using ih r(1) by simp
  have new: "m_best (history s1 ! length (history self)) =
      Min (set (map m_valid (take (Suc (length (history self))) (history s1))))"
    using r(2) by (simp add: nth tk)
  have inv: "history_inv (history self) \<longrightarrow> history_inv (history s1)"
    using ih r history_inv_snoc[of "history self" r] by auto
  have all: "list_all (\<lambda>k. m_best (history s1 ! k) = Min (set (map m_valid (take (Suc k) (history s1)))))
           [length (history self)..<length (history s1)]"
  proof -
    have lt: "length (history self) < length (history s1)"
      using len by simp
    have "[length (history self)..<length (history s1)] =
        length (history self) # [length (history s0)..<length (history s1)]"
      by (subst upt_conv_Cons[OF lt]) (simp add: r(1))
    moreover have "list_all (\<lambda>k. m_best (history s1 ! k) = Min (set (map m_valid (take (Suc k) (history s1)))))
           [length (history s0)..<length (history s1)]"
      using ih by blast
    ultimately show ?thesis using new by simp
  qed
  show ?case
    using len pre inv all ih r(3) by simp
qed

lemma upto_Cons: "a \<le> b \<Longrightarrow> [a..b] = a # [a + 1..b]"
  by (simp add: upto_rec1)

text \<open>
  C1.  One turn of the epoch loop that returns appends exactly one record to the history;
  its best is the least valid loss of the history including it; and when its valid loss
  equals that least value, the best state is the model state of that moment.  A run of
  \<^verbatim>\<open>train\<close> that returns (not in the save-again mode) started exactly the epochs
  \<^verbatim>\<open>range(len(history), epochs)\<close> in order, appended one record per epoch to the history
  it began with, every appended record satisfies best = min of the valid losses up to
  it, and the history invariant holds at the end whenever it held at the start (as it
  does for the empty history of a fresh run).
\<close>

theorem epoch_loop_history_invariant:
  "(train_epoch cfg e ep s0 = Return u s1 \<longrightarrow>
      (\<exists>r. history s1 = history s0 @ [r] \<and>
           m_best r = Min (set (map m_valid (history s0 @ [r]))) \<and>
           (m_valid r = m_best r \<longrightarrow> best_state s1 = Some (model s1)))) \<and>
   (\<not> save_again cfg \<and> train cfg e self = Return u s2 \<longrightarrow>
      epoch_starts (events s2) =
        epoch_starts (events self) @ py_range (int (length (history self))) (epochs cfg) \<and>
      length (history s2) = length (history self) + nat (epochs cfg - int (length (history self))) \<and>
      take (length (history self)) (history s2) = history self \<and>
      list_all (\<lambda>k. m_best (history s2 ! k) = Min (set (map m_valid (take (Suc k) (history s2)))))
        [length (history self)..<length (history s2)] \<and>
      (history_inv (history self) \<longrightarrow> history_inv (history s2)))"
proof -
  have a: "train_epoch cfg e ep s0 = Return u s1 \<longrightarrow>
      (\<exists>r. history s1 = history s0 @ [r] \<and>
           m_best r = Min (set (map m_valid (history s0 @ [r]))) \<and>
           (m_valid r = m_best r \<longrightarrow> best_state s1 = Some (model s1)))"
  proof
    assume "train_epoch cfg e ep s0 = Return u s1"
    from train_epoch_result[OF this] show "\<exists>r. history s1 = history s0 @ [r] \<and>
           m_best r = Min (set (map m_valid (history s0 @ [r]))) \<and>
           (m_valid r = m_best r \<longrightarrow> best_state s1 = Some (model s1))"
      by (metis (no_types, lifting))
  qed
  have b: "epoch_starts (events s2) =
        epoch_starts (events self) @ py_range (int (length (history self))) (epochs cfg) \<and>
      length (history s2) = length (history self) + nat (epochs cfg - int (length (history self))) \<and>
      take (length (history self)) (history s2) = history self \<and>
      list_all (\<lambda>k. m_best (history s2 ! k) = Min (set (map m_valid (take (Suc k) (history s2)))))
        [length (history self)..<length (history s2)] \<and>
      (history_inv (history self) \<longrightarrow> history_inv (history s2))"
    if ns: "\<not> save_again cfg" and t: "train cfg e self = Return u s2"
  proof -
    from t ns obtain a sm where m: "(if disk self ''./tensorboard/log'' = None
          then os_mkdir ''./tensorboard/log'' self else Return () self) = Return a sm"
      and f: "for_epochs cfg e (py_range (int (length (history sm))) (epochs cfg)) sm = Return u s2"
      by (auto simp: train_def dest: bind_ReturnD)
    have sm: "history sm = history self" "events sm = events self"
      using m by (auto simp: os_mkdir_def split: if_splits)
    show ?thesis
      using for_epochs_result[OF f] unfolding sm py_range_length by blast
  qed
  from a b show ?thesis by blast
qed


lemmas run_defs = train_def train_epoch_def record_epoch_def persist_epoch_def run_one_epoch_def
  process_batch_def compute_loss_def save_ckpts_def serialize_def os_mkdir_def os_rename_def
  write_file_def open_for_writing_def parent_dir_def make_package_def py_range_def
  pull_metric_def truthy_def Let_def

lemma demo_train_epoch_returns:
  "\<exists>s1. train_epoch demo_args demo_env 0 demo_solver = Return () s1"
  by (simp add: run_defs demo_args_def demo_env_def demo_solver_def fresh_def)

lemma demo_train_returns:
  "\<exists>s2. train demo_args demo_env demo_solver = Return () s2"
  by (simp add: run_defs demo_args_def demo_env_def demo_solver_def fresh_def upto_Cons)


lemma demo_train_epoch_history:
  "\<exists>s1. train_epoch demo_args demo_env 0 demo_solver = Return () s1 \<and>
     history s1 = [\<lparr>m_train = 1, m_valid = 0, m_best = 0, m_pesq = None, m_stoi = None\<rparr>]"
  by (simp add: run_defs demo_args_def demo_env_def demo_solver_def fresh_def)

theorem epoch_loop_history_invariant_witness:
  "\<exists>s1 s2. train_epoch demo_args demo_env 0 demo_solver = Return () s1 \<and>
     best_state s1 = Some (model s1) \<and>
     train demo_args demo_env demo_solver = Return () s2 \<and>
     epoch_starts (events s2) = [0, 1] \<and> length (history s2) = 2 \<and>
     history_inv (history s2)"
proof -
  obtain s1 where s1: "train_epoch demo_args demo_env 0 demo_solver = Return () s1"
    "history s1 = [\<lparr>m_train = 1, m_valid = 0, m_best = 0, m_pesq = None, m_stoi = None\<rparr>]"
    using demo_train_epoch_history by blast
  obtain s2 where s2: "train demo_args demo_env demo_solver = Return () s2"
    using demo_train_returns by blast
  have ns: "\<not> save_again demo_args" by (simp add: demo_args_def)
  have h0: "history demo_solver = []" "events demo_solver = []"
    by (simp_all add: demo_solver_def fresh_def)
  have r: "py_range 0 (epochs demo_args) = [0, 1]"
    by (simp add: py_range_def demo_args_def upto_Cons)
  have e: "nat (epochs demo_args) = 2" by (simp add: demo_args_def)
  note t = epoch_loop_history_invariant[of demo_args demo_env 0 demo_solver "()" s1 demo_solver s2]
  from t s1 have "best_state s1 = Some (model s1)"
    by (auto simp: h0)
  moreover have hi: "history_inv (history demo_solver)"
    by (simp add: h0 history_inv_def)
  from t s2 ns hi have "epoch_starts (events s2) = [0, 1] \<and> length (history s2) = 2 \<and>
     history_inv (history s2)"
    by (simp add: h0 r e)
  ultimately show ?thesis using s1(1) s2 by blast
qed

text \<open>
  C9, as the claim states it, fails: without a validation loader, on a history resumed
  with the valid loss -1, the epoch records the valid loss 0 but the best loss -1, the
  two differ, and no snapshot is taken (the best state stays \<open>None\<close>).
\<close>

theorem no_validation_loader_negative_history:
  "\<exists>s1. train_epoch demo_args demo_env 1
           (demo_solver\<lparr>history :=
              [\<lparr>m_train = 1, m_valid = - 1, m_best = - 1, m_pesq = None, m_stoi = None\<rparr>]\<rparr>) =
          Return () s1 \<and>
        \<not> truthy (cv_loader demo_env) \<and>
        map m_valid (history s1) = [- 1, 0] \<and> map m_best (history s1) = [- 1, - 1] \<and>
        best_state s1 = None \<and> model s1 = 1"
  by (simp add: run_defs demo_args_def demo_env_def demo_solver_def fresh_def)

text \<open>
  C9, amended.  Without a validation loader (none, or one with no batch), on a history
  whose valid losses are not negative (the empty history of a fresh run, or records of
  earlier epochs with non-negative losses), every turn of the epoch loop that returns
  records the valid loss 0 and the best loss 0, and leaves the best state equal to the
  model state at the end of that epoch; the history it leaves has no negative valid loss
  either, so the same holds for the next epoch.
\<close>

theorem no_validation_loader_snapshots_every_epoch:
  assumes "\<not> truthy (cv_loader e)"
    and "list_all (\<lambda>r. 0 \<le> m_valid r) (history s0)"
    and "train_epoch cfg e ep s0 = Return u s1"
  shows "\<exists>r. history s1 = history s0 @ [r] \<and> m_valid r = 0 \<and> m_best r = 0 \<and>
           best_state s1 = Some (model s1) \<and> list_all (\<lambda>r. 0 \<le> m_valid r) (history s1)"
proof -
  from train_epoch_result[OF assms(3)] assms(1) obtain r where r: "history s1 = history s0 @ [r]"
    "m_best r = Min (set (map m_valid (history s0 @ [r])))"
    "best_state s1 = (if m_valid r = m_best r then Some (model s1) else best_state s0)"
    "m_valid r = 0"
    by blast
  have "Min (set (map m_valid (history s0 @ [r]))) = 0"
  proof (rule Min_eqI)
    show "finite (set (map m_valid (history s0 @ [r])))" by simp
    show "0 \<in> set (map m_valid (history s0 @ [r]))" using r(4) by simp
    show "\<And>y. y \<in> set (map m_valid (history s0 @ [r])) \<Longrightarrow> 0 \<le> y"
      using assms(2) r(4) by (auto simp: list_all_iff)
  qed
  with r have b: "m_best r = 0" by simp
  show ?thesis
    using r b assms(2) by (intro exI[of _ r]) simp
qed

lemma demo_train_epoch_resumed:
  "\<exists>s1. train_epoch demo_args demo_env 1
           (demo_solver\<lparr>history :=
              [\<lparr>m_train = 1, m_valid = 2, m_best = 2, m_pesq = None, m_stoi = None\<rparr>]\<rparr>) =
          Return () s1"
  by (simp add: run_defs demo_args_def demo_env_def demo_solver_def fresh_def)

theorem no_validation_loader_snapshots_every_epoch_witness:
  "\<exists>s1. train_epoch demo_args demo_env 1
           (demo_solver\<lparr>history :=
              [\<lparr>m_train = 1, m_valid = 2, m_best = 2, m_pesq = None, m_stoi = None\<rparr>]\<rparr>) =
          Return () s1 \<and>
     map m_valid (history s1) = [2, 0] \<and> map m_best (history s1) = [2, 0] \<and>
     best_state s1 = Some (model s1)"
proof -
  obtain s1 where s1: "train_epoch demo_args demo_env 1
           (demo_solver\<lparr>history :=
              [\<lparr>m_train = 1, m_valid = 2, m_best = 2, m_pesq = None, m_stoi = None\<rparr>]\<rparr>) =
          Return () s1"
    using demo_train_epoch_resumed by blast
  have c: "\<not> truthy (cv_loader demo_env)" by (simp add: demo_env_def truthy_def)
  have h: "list_all (\<lambda>r. 0 \<le> m_valid r)
      (history (demo_solver\<lparr>history :=
              [\<lparr>m_train = 1, m_valid = 2, m_best = 2, m_pesq = None, m_stoi = None\<rparr>]\<rparr>))"
    by simp
  from no_validation_loader_snapshots_every_epoch[OF c h s1] s1 show ?thesis
    by auto
qed






lemma call_ac_loss_ReturnD:
  assumes "call_ac_loss e clean estimate self = Return v s1"
  shows "est_training (ac_loss s1) \<and> ac_modes (events s1) = ac_modes (events self) @ [None]"
  using call_ac_loss_final[of e clean estimate self] assms by auto

lemma compute_loss_ac:
  assumes "acoustic_loss cfg" and "compute_loss cfg e clean estimate self = Return l s1"
  shows "est_training (ac_loss s1) \<and> ac_modes (events s1) = ac_modes (events self) @ [None]"
proof -
  from assms obtain v where "call_ac_loss e clean estimate self = Return v s1"
    by (auto simp: compute_loss_def Let_def split: if_splits dest!: bind_ReturnD)
  then show ?thesis by (rule call_ac_loss_ReturnD)
qed

lemma process_batch_ac:
  assumes "acoustic_loss cfg" and "process_batch cfg e cross_valid i data self = Return l s1"
  shows "est_training (ac_loss s1) \<and> ac_modes (events s1) = ac_modes (events self) @ [None]"
proof -
  obtain noisy0 clean0 where data: "data = (noisy0, clean0)" by (cases data)
  define r0 where "r0 = (if (i + 1) mod 1000 = 0 \<and> \<not> cross_valid then save_ckpts cfg self else Return () self)"
  from assms(2) obtain u0 s0 where ret: "r0 = Return u0 s0"
    unfolding process_batch_def r0_def[symmetric] by (blast dest: bind_ReturnD)
  have "\<exists>sn d. r0 = Return () (self\<lparr>seen := sn, disk := d\<rparr>)"
  proof (cases "(i + 1) mod 1000 = 0 \<and> \<not> cross_valid")
    case True
    then have "r0 = save_ckpts cfg self" by (simp add: r0_def)
    with ret save_ckpts_result[of cfg self u0 s0] show ?thesis by (metis old.unit.exhaust)
  next
    case False
    then have "r0 = Return () self"
      unfolding r0_def by (simp only: if_False)
    then have "r0 = Return () (self\<lparr>seen := seen self, disk := disk self\<rparr>)"
      by simp
    then show ?thesis by blast
  qed
  then obtain sn d where r0: "r0 = Return () (self\<lparr>seen := sn, disk := d\<rparr>)" by blast
  define sa where "sa = self\<lparr>seen := sn, disk := d\<rparr>"
  have sa: "events sa = events self" by (simp add: sa_def)
  show ?thesis
  proof (cases cross_valid)
    case True
    from assms(2) obtain l0 s4 where c: "compute_loss cfg e clean0
        (dmodel e (model_training sa) (model sa) noisy0) (sa\<lparr>events := events sa @ [Forward]\<rparr>) = Return l0 s4"
      and s1: "s1 = s4"
      unfolding process_batch_def r0_def[symmetric] r0 data sa_def[symmetric]
      by (auto simp: True Let_def dest!: bind_ReturnD)
    from compute_loss_ac[OF assms(1) c] show ?thesis by (simp add: s1 sa)
  next
    case False
    obtain noise clean where aug: "augment e (w_sub e noisy0 clean0) clean0 = (noise, clean)"
      by (cases "augment e (w_sub e noisy0 clean0) clean0")
    from assms(2) obtain l0 s4 m opt where c: "compute_loss cfg e clean
        (dmodel e (model_training sa) (model sa) (w_add e noise clean))
        (sa\<lparr>events := events sa @ [Augment, Forward]\<rparr>) = Return l0 s4"
      and s1: "s1 = s4\<lparr>model := m, optimizer := opt, events := events s4 @ [OptimStep]\<rparr>"
      unfolding process_batch_def r0_def[symmetric] r0 data sa_def[symmetric]
      by (auto simp: False Let_def aug split: prod.splits dest!: bind_ReturnD)
    from compute_loss_ac[OF assms(1) c] show ?thesis by (simp add: s1 sa)
  qed
qed

lemma run_batches_ac:
  assumes "acoustic_loss cfg" and "run_batches cfg e cross_valid i bs totals self = Return t s1"
  shows "ac_modes (events s1) = ac_modes (events self) @ replicate (length bs) None \<and>
         (bs = [] \<or> est_training (ac_loss s1))"
  using assms(2)
proof (induction bs arbitrary: i totals self)
  case Nil
  then show ?case by simp
next
  case (Cons b bs)
  from Cons.prems obtain l s0 t0 where p: "process_batch cfg e cross_valid i b self = Return l s0"
    and r: "run_batches cfg e cross_valid (i + 1) bs t0 s0 = Return t s1"
    by (auto split: prod.splits dest!: bind_ReturnD)
  note a = process_batch_ac[OF assms(1) p] and ih = Cons.IH[OF r]
  show ?case
  proof (cases bs)
    case Nil
    with r a show ?thesis by simp
  next
    case (Cons c cs)
    with a ih show ?thesis by (simp add: replicate_append_same)
  qed
qed


text \<open>
  C8.  A call of the acoustic loss with no mode argument is \<open>forward\<close> with the mode
  train.  Every acoustic-loss call a pass adds, training and validation alike, returning
  or raising, gives no mode argument.  So when the acoustic loss is enabled and a pass
  returns, it made one such call per batch of its (non-empty) loader and the estimator is
  in training mode at the end, while the model's own training flag is what it was when
  the pass began: in a validation pass, entered after \<^verbatim>\<open>self.model.eval()\<close>, the model
  is in evaluation mode and the estimator in training mode.
\<close>

theorem acoustic_loss_called_without_mode:
  "ac_call env al c w None = forward env al c w ''train'' \<and>
   (\<exists>k. ac_modes (events (final (run_one_epoch cfg e ep cross_valid self))) =
          ac_modes (events self) @ replicate k None) \<and>
   (acoustic_loss cfg \<and> run_one_epoch cfg e ep cross_valid self = Return r s1 \<longrightarrow>
      est_training (ac_loss s1) \<and> model_training s1 = model_training self \<and>
      (\<exists>bs. (if \<not> cross_valid then Some (tr_loader e) else cv_loader e) = Some bs \<and> bs \<noteq> [] \<and>
            ac_modes (events s1) = ac_modes (events self) @ replicate (length bs) None))"
proof -
  have a: "ac_call env al c w None = forward env al c w ''train''"
    by (simp add: ac_call_def)
  have b: "\<exists>k. ac_modes (events (final (run_one_epoch cfg e ep cross_valid self))) =
          ac_modes (events self) @ replicate k None"
    using run_one_epoch_frame[of self cfg e ep cross_valid] by (simp add: pass_frame_def)
  have c: "est_training (ac_loss s1) \<and> model_training s1 = model_training self \<and>
      (\<exists>bs. (if \<not> cross_valid then Some (tr_loader e) else cv_loader e) = Some bs \<and> bs \<noteq> [] \<and>
            ac_modes (events s1) = ac_modes (events self) @ replicate (length bs) None)"
    if ac: "acoustic_loss cfg" and r: "run_one_epoch cfg e ep cross_valid self = Return r s1"
  proof -
    from r obtain bs where bs: "(if \<not> cross_valid then Some (tr_loader e) else cv_loader e) = Some bs"
      by (cases "if \<not> cross_valid then Some (tr_loader e) else cv_loader e")
         (auto simp: run_one_epoch_def)
    from r obtain t where rb: "run_batches cfg e cross_valid 0 bs (0, 0, 0) self = Return t s1"
      and ne: "bs \<noteq> []"
      unfolding run_one_epoch_def bs option.case
      by (auto simp: Let_def split: prod.splits if_splits dest!: bind_ReturnD)
    from run_batches_ac[OF ac rb] ne run_one_epoch_ReturnD[OF r] bs show ?thesis
      by (auto simp: pass_frame_def)
  qed
  from a b c show ?thesis by blast
qed

lemma stub_forward_l2:
  "forward stub_env \<lparr>loss_type = ''l2'', est_training = b\<rparr> [[c]] [[w]] ''train'' =
     Return (5 * (w - c)\<^sup>2 / 2) \<lparr>loss_type = ''l2'', est_training = True\<rparr>"
proof -
  have s: "has_shape3 1 1 2 [[[w, 2 * w]]]" "has_shape3 1 1 2 [[[c, 2 * c]]]"
    by (simp_all add: has_shape3_def)
  have "spec_l2 1 1 2 [[[w, 2 * w]]] [[[c, 2 * c]]] = 5 * (w - c)\<^sup>2 / 2"
    by (simp add: spec_l2_def mean_over_def numeral_2_eq_2 power2_eq_square algebra_simps)
  with distance_l2[OF s, of "[[257 * w\<^sup>2 / 256]]"]
  have "acoustic_distance ''l2'' [[[w, 2 * w]]] [[[c, 2 * c]]] [[257 * w\<^sup>2 / 256]] =
      Inr (5 * (w - c)\<^sup>2 / 2)"
    by simp
  then show ?thesis
    by (simp add: forward_def stub_get_stft_False stub_get_stft_True stub_estimate)
qed

theorem acoustic_loss_called_without_mode_witness:
  "\<exists>r s1. run_one_epoch (demo_args\<lparr>acoustic_loss := True\<rparr>)
             (demo_env\<lparr>cv_loader := Some [(2, 1)]\<rparr>) 0 True
             (demo_solver\<lparr>model_training := False\<rparr>) = Return r s1 \<and>
     est_training (ac_loss s1) \<and> \<not> model_training s1 \<and> ac_modes (events s1) = [None]"
proof -
  have "\<exists>r s1. run_one_epoch (demo_args\<lparr>acoustic_loss := True\<rparr>)
             (demo_env\<lparr>cv_loader := Some [(2, 1)]\<rparr>) 0 True
             (demo_solver\<lparr>model_training := False\<rparr>) = Return r s1"
    by (simp add: run_defs call_ac_loss_def ac_call_def stub_forward_l2 demo_args_def
        demo_env_def demo_solver_def fresh_def)
  then obtain r s1 where r: "run_one_epoch (demo_args\<lparr>acoustic_loss := True\<rparr>)
             (demo_env\<lparr>cv_loader := Some [(2, 1)]\<rparr>) 0 True
             (demo_solver\<lparr>model_training := False\<rparr>) = Return r s1"
    by blast
  have a: "acoustic_loss (demo_args\<lparr>acoustic_loss := True\<rparr>)"
    by simp
  have c: "cv_loader (demo_env\<lparr>cv_loader := Some [(2, 1)]\<rparr>) = Some [(2, 1)]"
    "events (demo_solver\<lparr>model_training := False\<rparr>) = []"
    "\<not> model_training (demo_solver\<lparr>model_training := False\<rparr>)"
    by (simp_all add: demo_solver_def fresh_def)
  from acoustic_loss_called_without_mode[of _ _ _ _ "demo_args\<lparr>acoustic_loss := True\<rparr>"
      "demo_env\<lparr>cv_loader := Some [(2, 1)]\<rparr>" 0 True "demo_solver\<lparr>model_training := False\<rparr>" r s1]
    a r c
  have "est_training (ac_loss s1) \<and> \<not> model_training s1 \<and> ac_modes (events s1) = [None]"
    by auto
  with r show ?thesis by blast
qed

text \<open>
  C3, as the claim states it, fails: continuing from an external checkpoint (no
  resumable checkpoint, continue-best not set, optimizer adam) replaces the optimizer's
  state and the best state by the package's, besides the model state.  The history is
  not taken from the package.
\<close>

theorem reset_external_loads_optimizer_and_best_state:
  "\<exists>s1. reset (demo_args\<lparr>checkpoint := False, continue_from := ''ext.th''\<rparr>) demo_env
           (demo_solver\<lparr>disk := [''ext.th'' \<mapsto> File (Package ext_package)]\<rparr>) = Return () s1 \<and>
        model s1 = 3 \<and> optimizer demo_solver = 0 \<and> optimizer s1 = 7 \<and>
        best_state demo_solver = None \<and> best_state s1 = Some 5 \<and> history s1 = []"
  by (simp add: reset_def torch_load_def demo_args_def demo_env_def demo_solver_def fresh_def
      ext_package_def Let_def)

text \<open>
  C3, amended.  When no resumable checkpoint is found, an external continue-from path is
  given and holds a package (and no pretrained model is named), \<^verbatim>\<open>_reset\<close> loads the
  model state from the package (its best state instead of its latest state when
  continue-best is set), sets the best state to the package's, and also loads the
  package's optimizer state when continue-best is not set, the optimizer is adam and the
  package has one.  The history is left as it was; on the empty history of a new solver
  the epoch loop therefore counts from zero.
\<close>

theorem reset_from_external_checkpoint:
  assumes "\<not> (checkpoint cfg \<and> disk self (checkpoint_file cfg) \<noteq> None \<and> \<not> restart cfg)"
    and "continue_from cfg \<noteq> []"
    and "disk self (continue_from cfg) = Some (File (Package pk))"
    and "(if continue_best cfg then pkg_best_state pk else Some (pkg_model pk)) = Some st"
    and "continue_pretrained cfg = []"
  shows "reset cfg e self =
           Return ()
             (self\<lparr>model := st,
                   optimizer :=
                     (case pkg_optimizer pk of
                        Some opt \<Rightarrow>
                          if \<not> continue_best cfg \<and> optim cfg = ''adam'' then opt else optimizer self
                      | None \<Rightarrow> optimizer self),
                   best_state := pkg_best_state pk\<rparr>) \<and>
         history (final (reset cfg e self)) = history self \<and>
         (history self = [] \<longrightarrow>
            py_range (int (length (history (final (reset cfg e self))))) (epochs cfg) =
              py_range 0 (epochs cfg))"
proof -
  have r: "reset cfg e self =
           Return ()
             (self\<lparr>model := st,
                   optimizer :=
                     (case pkg_optimizer pk of
                        Some opt \<Rightarrow>
                          if \<not> continue_best cfg \<and> optim cfg = ''adam'' then opt else optimizer self
                      | None \<Rightarrow> optimizer self),
                   best_state := pkg_best_state pk\<rparr>)"
  proof (cases "continue_best cfg")
    case True
    with assms show ?thesis
      by (auto simp: reset_def torch_load_def Let_def split: option.splits)
  next
    case False
    with assms show ?thesis
      by (auto simp: reset_def torch_load_def Let_def split: option.splits)
  qed
  then show ?thesis by simp
qed

theorem reset_from_external_checkpoint_witness:
  "reset (demo_args\<lparr>checkpoint := False, continue_from := ''ext.th'', continue_best := True\<rparr>)
      demo_env (demo_solver\<lparr>disk := [''ext.th'' \<mapsto> File (Package ext_package)]\<rparr>) =
     Return () (demo_solver\<lparr>disk := [''ext.th'' \<mapsto> File (Package ext_package)],
                            model := 5, best_state := Some 5\<rparr>)"
proof -
  have a: "\<not> (checkpoint (demo_args\<lparr>checkpoint := False, continue_from := ''ext.th'', continue_best := True\<rparr>) \<and>
      disk (demo_solver\<lparr>disk := [''ext.th'' \<mapsto> File (Package ext_package)]\<rparr>)
        (checkpoint_file (demo_args\<lparr>checkpoint := False, continue_from := ''ext.th'', continue_best := True\<rparr>)) \<noteq> None \<and>
      \<not> restart (demo_args\<lparr>checkpoint := False, continue_from := ''ext.th'', continue_best := True\<rparr>))"
    by simp
  have b: "continue_from (demo_args\<lparr>checkpoint := False, continue_from := ''ext.th'', continue_best := True\<rparr>) \<noteq> []"
    by simp
  have c: "disk (demo_solver\<lparr>disk := [''ext.th'' \<mapsto> File (Package ext_package)]\<rparr>)
      (continue_from (demo_args\<lparr>checkpoint := False, continue_from := ''ext.th'', continue_best := True\<rparr>)) =
      Some (File (Package ext_package))"
    by simp
  have d: "(if continue_best (demo_args\<lparr>checkpoint := False, continue_from := ''ext.th'', continue_best := True\<rparr>)
      then pkg_best_state ext_package else Some (pkg_model ext_package)) = Some 5"
    by (simp add: ext_package_def)
  have f: "continue_pretrained (demo_args\<lparr>checkpoint := False, continue_from := ''ext.th'', continue_best := True\<rparr>) = []"
    by (simp add: demo_args_def)
  from reset_from_external_checkpoint[OF a b c d f, of demo_env] show ?thesis
    by (simp add: ext_package_def demo_solver_def fresh_def)
qed

section \<open>The directory of the periodic checkpoints\<close>

text \<open>
  With a regular file at ./checkpoints and the toggle on, \<^verbatim>\<open>save_ckpts\<close> skips the
  \<^verbatim>\<open>mkdir\<close> and the write raises.
\<close>

lemma digit_char_not_slash:
  assumes "k < 10"
  shows "digit_char k \<noteq> CHR ''/''"
proof -
  have "digit_char k \<in> set ''0123456789''"
    unfolding digit_char_def using assms by (intro nth_mem) simp
  moreover have "CHR ''/'' \<notin> set ''0123456789''"
    by simp
  ultimately show ?thesis by metis
qed

lemma digits_acc_no_slash:
  "CHR ''/'' \<notin> set acc \<Longrightarrow> CHR ''/'' \<notin> set (digits_acc n acc)"
proof (induction n acc rule: digits_acc.induct)
  case (1 n acc)
  have d: "digit_char (n mod 10) \<noteq> CHR ''/''"
    by (rule digit_char_not_slash) simp
  have a: "CHR ''/'' \<notin> set (digit_char (n mod 10) # acc)"
    using d "1.prems" by auto
  show ?case
  proof (cases "n div 10 = 0")
    case True
    then have "digits_acc n acc = digit_char (n mod 10) # acc"
      by (subst digits_acc.simps) (simp del: digits_acc.simps)
    with a show ?thesis by (simp del: digits_acc.simps)
  next
    case False
    then have "digits_acc n acc = digits_acc (n div 10) (digit_char (n mod 10) # acc)"
      by (subst digits_acc.simps) (simp del: digits_acc.simps)
    with "1.IH"[OF False a] show ?thesis by (simp del: digits_acc.simps)
  qed
qed

lemma string_of_int_no_slash: "CHR ''/'' \<notin> set (string_of_int k)"
proof (cases "k < 0")
  case True
  then have "string_of_int k = CHR ''-'' # digits_acc (nat (- k)) []"
    by (simp add: string_of_int_def del: digits_acc.simps)
  with digits_acc_no_slash[of "[]" "nat (- k)"] show ?thesis
    by (simp del: digits_acc.simps)
next
  case False
  then have "string_of_int k = digits_acc (nat k) []"
    by (simp add: string_of_int_def del: digits_acc.simps)
  with digits_acc_no_slash[of "[]" "nat k"] show ?thesis
    by (simp del: digits_acc.simps)
qed

lemma parent_dir_slash:
  assumes "CHR ''/'' \<notin> set name"
  shows "parent_dir (d @ CHR ''/'' # name) = d"
proof -
  have "dropWhile (\<lambda>c. c \<noteq> CHR ''/'') (rev name @ CHR ''/'' # rev d) = CHR ''/'' # rev d"
    using assms by (subst dropWhile_append2) auto
  then show ?thesis by (simp add: parent_dir_def)
qed

lemma parent_dir_checkpoint_name:
  "parent_dir (''./checkpoints/checkpoint_epoch_'' @ string_of_int k @ ''.pt'') = ''./checkpoints''"
proof -
  have n: "CHR ''/'' \<notin> set (''checkpoint_epoch_'' @ string_of_int k @ ''.pt'')"
    using string_of_int_no_slash[of k] by simp
  have "''./checkpoints/checkpoint_epoch_'' @ string_of_int k @ ''.pt'' =
      ''./checkpoints'' @ CHR ''/'' # (''checkpoint_epoch_'' @ string_of_int k @ ''.pt'')"
    by simp
  then show ?thesis by (simp only: parent_dir_slash[OF n])
qed

lemma save_ckpts_file_in_the_way:
  assumes "disk self ''./checkpoints'' = Some (File c)" and "save_checkpoints cfg"
  shows "\<exists>err. save_ckpts cfg self = Raise err self"
proof -
  define path where
    "path = ''./checkpoints/checkpoint_epoch_'' @ string_of_int (epoch self + 1) @ ''.pt''"
  have "parent_dir path = ''./checkpoints''"
    unfolding path_def by (rule parent_dir_checkpoint_name)
  then have "\<exists>err. open_for_writing (disk self) path = Some err"
    using assms(1) by (simp add: open_for_writing_def)
  then obtain err where "open_for_writing (disk self) path = Some err" ..
  then have w: "write_file (Package (make_package cfg self)) path self = Raise err self"
    by (simp add: write_file_def)
  have "save_ckpts cfg self = write_file (Package (make_package cfg self)) path self"
    unfolding save_ckpts_def Let_def path_def using assms by (simp only: if_False if_True option.distinct bind_Return)
  with w show ?thesis by simp
qed

lemma tmp_name_not_checkpoints: "x @ ''.tmp'' \<noteq> ''./checkpoints''"
proof
  assume "x @ ''.tmp'' = ''./checkpoints''"
  then have "last (x @ ''.tmp'') = last ''./checkpoints''" by simp
  then show False by simp
qed

lemma save_ckpts_final_disk:
  "disk (final (save_ckpts cfg self)) ''./checkpoints'' \<noteq> None \<and>
   (disk self ''./checkpoints'' = None \<longrightarrow>
      disk (final (save_ckpts cfg self)) ''./checkpoints'' = Some Dir)"
  by (auto simp: save_ckpts_def os_mkdir_def write_file_def Let_def split: option.splits)

lemma save_ckpts_toggle_off:
  "\<not> save_checkpoints cfg \<Longrightarrow>
   save_ckpts cfg self =
     Return () (if disk self ''./checkpoints'' = None
                then self\<lparr>seen := seen self @ [disk self],
                         disk := (disk self)(''./checkpoints'' \<mapsto> Dir)\<rparr>
                else self)"
  by (simp add: save_ckpts_def os_mkdir_def Let_def)

lemma compute_loss_disk: "disk (final (compute_loss cfg e clean estimate self)) = disk self"
proof -
  obtain al where "final (call_ac_loss e clean estimate self) =
     self\<lparr>events := events self @ [AcousticCall None], ac_loss := al\<rparr>"
    using call_ac_loss_final[of e clean estimate self] by blast
  then show ?thesis
    by (cases "call_ac_loss e clean estimate self")
       (auto simp: compute_loss_def Let_def)
qed

lemma batch_tail_disk:
  "disk (final (bind (compute_loss cfg e clean estimate s3)
                    (\<lambda>l s4.
                       if \<not> cross_valid
                       then (case optim_step e clip (model s4) (optimizer s4) noisy clean of
                               (m, opt) \<Rightarrow>
                                 Return l (s4\<lparr>model := m, optimizer := opt,
                                              events := events s4 @ [OptimStep]\<rparr>))
                       else Return l s4))) = disk s3"
  using compute_loss_disk[of cfg e clean estimate s3]
  by (cases "compute_loss cfg e clean estimate s3") (auto split: prod.splits)

lemma process_batch_disk:
  "disk (final (process_batch cfg e cross_valid i data self)) =
     disk (final (if (i + 1) mod 1000 = 0 \<and> \<not> cross_valid then save_ckpts cfg self
                  else Return () self))"
proof -
  obtain noisy0 clean0 where data: "data = (noisy0, clean0)" by (cases data)
  define r0 where "r0 = (if (i + 1) mod 1000 = 0 \<and> \<not> cross_valid then save_ckpts cfg self else Return () self)"
  show ?thesis
  proof (cases r0)
    case (Raise err s0)
    then show ?thesis
      unfolding process_batch_def r0_def[symmetric] by simp
  next
    case (Return u s0)
    obtain noise clean where aug: "augment e (w_sub e noisy0 clean0) clean0 = (noise, clean)"
      by (cases "augment e (w_sub e noisy0 clean0) clean0")
    show ?thesis
      unfolding process_batch_def r0_def[symmetric] Return data
      by (cases cross_valid)
         (simp_all add: Let_def aug batch_tail_disk[where cross_valid = True, simplified]
            batch_tail_disk[where cross_valid = False, simplified])
  qed
qed

lemma serialize_keeps_path:
  assumes "disk self p \<noteq> None" and "\<And>x. x @ ''.tmp'' \<noteq> p"
  shows "disk (final (serialize cfg self)) p \<noteq> None \<and>
         (disk self p = Some Dir \<longrightarrow> disk (final (serialize cfg self)) p = Some Dir)"
  using assms(1) assms(2)[of "checkpoint_file cfg"] assms(2)[of "best_file cfg"]
  by (auto simp: serialize_def os_rename_def write_file_def Let_def bind_def
      split: if_splits option.splits result.splits)


lemma persist_epoch_disk:
  assumes "rank e = 0" and "checkpoint cfg"
    and "write_file (HistoryJson (history s5)) (history_file cfg) s5 = Return u s6"
  shows "disk (final (persist_epoch cfg e s5)) ''./checkpoints'' \<noteq> None \<and>
         (disk s6 ''./checkpoints'' = None \<longrightarrow>
            disk (final (persist_epoch cfg e s5)) ''./checkpoints'' = Some Dir)"
proof -
  have p: "persist_epoch cfg e s5 = bind (save_ckpts cfg s6) (\<lambda>_ s7. serialize cfg s7)"
    using assms by (simp add: persist_epoch_def)
  note k = save_ckpts_final_disk[of cfg s6]
  show ?thesis
  proof (cases "save_ckpts cfg s6")
    case (Raise err s7)
    with k p show ?thesis by simp
  next
    case (Return a s7)
    with k have d: "disk s7 ''./checkpoints'' \<noteq> None"
      "disk s6 ''./checkpoints'' = None \<longrightarrow> disk s7 ''./checkpoints'' = Some Dir"
      by simp_all
    from serialize_keeps_path[OF d(1) tmp_name_not_checkpoints, of cfg] d(2) Return p
    show ?thesis by simp
  qed
qed

text \<open>
  C10.  After every call of \<^verbatim>\<open>save_ckpts\<close>, returned or raised, the path ./checkpoints
  exists, and it is a directory when it did not exist before; this holds whatever the
  toggle \<^verbatim>\<open>save_checkpoints\<close> says.  With the toggle off the call returns and the
  directory is its only change of the disk: no file is written, at the end or at any
  moment before.  The calls are made where the claim says: the 1000th, 2000th, ...
  batch of a training pass leaves the directory behind (and, with the toggle off,
  nothing else), any other batch and every validation batch leaves the disk as it was;
  and the end of an epoch on the worker of rank 0 with checkpoints enabled, once the
  history file is written, leaves the directory behind too.
\<close>

theorem save_ckpts_creates_directory:
  "disk (final (save_ckpts cfg self)) ''./checkpoints'' \<noteq> None \<and>
   (disk self ''./checkpoints'' = None \<longrightarrow>
      disk (final (save_ckpts cfg self)) ''./checkpoints'' = Some Dir) \<and>
   (\<not> save_checkpoints cfg \<longrightarrow>
      save_ckpts cfg self =
        Return () (if disk self ''./checkpoints'' = None
                   then self\<lparr>seen := seen self @ [disk self],
                            disk := (disk self)(''./checkpoints'' \<mapsto> Dir)\<rparr>
                   else self)) \<and>
   ((i + 1) mod 1000 = 0 \<longrightarrow>
      disk (final (process_batch cfg e False i data self)) ''./checkpoints'' \<noteq> None \<and>
      (disk self ''./checkpoints'' = None \<longrightarrow>
         disk (final (process_batch cfg e False i data self)) ''./checkpoints'' = Some Dir) \<and>
      (\<not> save_checkpoints cfg \<longrightarrow>
         disk (final (process_batch cfg e False i data self)) =
           (if disk self ''./checkpoints'' = None
            then (disk self)(''./checkpoints'' \<mapsto> Dir) else disk self))) \<and>
   ((i + 1) mod 1000 \<noteq> 0 \<or> cross_valid \<longrightarrow>
      disk (final (process_batch cfg e cross_valid i data self)) = disk self) \<and>
   (rank e = 0 \<and> checkpoint cfg \<and>
    write_file (HistoryJson (history s5)) (history_file cfg) s5 = Return u s6 \<longrightarrow>
      disk (final (persist_epoch cfg e s5)) ''./checkpoints'' \<noteq> None \<and>
      (disk s6 ''./checkpoints'' = None \<longrightarrow>
         disk (final (persist_epoch cfg e s5)) ''./checkpoints'' = Some Dir))"
proof -
  note a = save_ckpts_final_disk[of cfg self]
  have b: "\<not> save_checkpoints cfg \<longrightarrow>
      save_ckpts cfg self =
        Return () (if disk self ''./checkpoints'' = None
                   then self\<lparr>seen := seen self @ [disk self],
                            disk := (disk self)(''./checkpoints'' \<mapsto> Dir)\<rparr>
                   else self)"
    using save_ckpts_toggle_off[of cfg self] by blast
  have c: "disk (final (process_batch cfg e False i data self)) =
      disk (final (save_ckpts cfg self))" if "(i + 1) mod 1000 = 0"
    using that process_batch_disk[of cfg e False i data self] by simp
  have c': "disk (final (save_ckpts cfg self)) =
      (if disk self ''./checkpoints'' = None
       then (disk self)(''./checkpoints'' \<mapsto> Dir) else disk self)" if "\<not> save_checkpoints cfg"
    using save_ckpts_toggle_off[OF that, of self] by simp
  have d: "disk (final (process_batch cfg e cross_valid i data self)) = disk self"
    if "(i + 1) mod 1000 \<noteq> 0 \<or> cross_valid"
    using that process_batch_disk[of cfg e cross_valid i data self] by auto
  note f = persist_epoch_disk[of e cfg s5 u s6]
  from a b c c' d f show ?thesis by presburger
qed


theorem save_ckpts_creates_directory_witness:
  "save_ckpts demo_args demo_solver =
     Return () (demo_solver\<lparr>seen := [Map.empty], disk := [''./checkpoints'' \<mapsto> Dir]\<rparr>) \<and>
   disk (final (process_batch demo_args demo_env False 999 (2, 1) demo_solver)) =
     [''./checkpoints'' \<mapsto> Dir] \<and>
   disk (final (process_batch demo_args demo_env False 0 (2, 1) demo_solver)) = Map.empty \<and>
   disk (final (persist_epoch demo_args demo_env demo_solver)) ''./checkpoints'' = Some Dir"
proof -
  have w: "write_file (HistoryJson (history demo_solver)) (history_file demo_args) demo_solver =
      Return () (demo_solver\<lparr>seen := [Map.empty, [''history.json'' \<mapsto> File Partial]],
                             disk := [''history.json'' \<mapsto> File (HistoryJson [])]\<rparr>)"
    by (simp add: write_file_def open_for_writing_def parent_dir_def demo_args_def
        demo_solver_def fresh_def)
  have h: "\<not> save_checkpoints demo_args" "rank demo_env = 0" "checkpoint demo_args"
    "disk demo_solver = Map.empty" "seen demo_solver = []"
    by (simp_all add: demo_args_def demo_env_def demo_solver_def fresh_def)
  from save_ckpts_creates_directory[of demo_args demo_solver 999 demo_env "(2, 1)" False
      demo_solver "()" "demo_solver\<lparr>seen := [Map.empty, [''history.json'' \<mapsto> File Partial]],
                             disk := [''history.json'' \<mapsto> File (HistoryJson [])]\<rparr>"]
    save_ckpts_creates_directory[of demo_args demo_solver 0 demo_env "(2, 1)" False]
    w h
  show ?thesis by simp
qed

end
